theory Spec2Isabelle
  imports Complex_Main "HOL-Library.Sublist" "HOL-Library.List_Lexorder" "HOL-Library.Char_ord"
begin

section \<open>Conventions of the embedding\<close>

text \<open>
  The program is written in Go. A \<^verbatim>\<open>float64\<close> is modelled by the real number it
  denotes: every value the program reads comes from a JSON number or an SQLite column,
  neither of which can deliver a NaN, and the classification compares such a value with a
  constant that a \<^verbatim>\<open>float64\<close> holds exactly (7, 5, 1.0, 20, 40), so the branch
  taken is the one the real comparison takes. The sums of the energy balance and of the
  SQL aggregates are those of the reals, their \<^verbatim>\<open>float64\<close> rounding not being
  modelled; the protein calculation, whose comparison rounding can decide, is modelled
  with it. Go's
  \<^verbatim>\<open>int\<close> is modelled by \<^typ>\<open>int\<close>, and the conversion of a float to it is
  taken inside the 64-bit range, outside of which Go leaves it open. A nullable pointer
  \<^verbatim>\<open>*float64\<close> is a \<^typ>\<open>real option\<close>, a Go \<^verbatim>\<open>string\<close> is a
  \<^typ>\<open>string\<close> of bytes, and Go's \<^verbatim>\<open><\<close> on strings is the bytewise
  lexicographic order that \<^theory_text>\<open>List_Lexorder\<close> and \<^theory_text>\<open>Char_ord\<close> give to
  \<^typ>\<open>string\<close>. A Go \<^verbatim>\<open>error\<close> is a \<^typ>\<open>string option\<close> (its message), with
  \<^term>\<open>None\<close> for \<^verbatim>\<open>nil\<close>.
\<close>

definition go_int :: "real \<Rightarrow> int" where
  \<comment> \<open>Go's conversion \<^verbatim>\<open>int(x)\<close> of a float: the fraction is discarded (truncation towards zero).\<close>
  "go_int x = (if 0 \<le> x then \<lfloor>x\<rfloor> else \<lceil>x\<rceil>)"

text \<open>
  Where the result of a \<^verbatim>\<open>float64\<close> operation decides a comparison, the operation is
  modelled with its rounding: IEEE 754 gives the exact result rounded to the nearest
  \<^verbatim>\<open>float64\<close>, ties going to the even significand. A \<^verbatim>\<open>float64\<close> has 53
  significant bits, so for \<open>2\<^sup>k \<le> \<bar>x\<bar> < 2\<^sup>k\<^sup>+\<^sup>1\<close> the neighbouring values are
  \<open>2\<^sup>k\<^sup>-\<^sup>5\<^sup>2\<close> apart, and never less than \<open>2\<^sup>-\<^sup>1\<^sup>0\<^sup>7\<^sup>4\<close> apart. Results beyond the
  largest \<^verbatim>\<open>float64\<close>, which the machine turns into an infinity, are not modelled.
\<close>

definition round_half_even :: "real \<Rightarrow> int" where
  "round_half_even q =
     (let n = \<lfloor>q\<rfloor>; r = q - real_of_int n
      in if r < 1 / 2 then n else if 1 / 2 < r then n + 1 else if even n then n else n + 1)"

definition ulp_exp :: "real \<Rightarrow> int" where
  \<comment> \<open>the exponent of the distance between the \<^verbatim>\<open>float64\<close> values around \<open>x\<close>\<close>
  "ulp_exp x = max (\<lfloor>log 2 \<bar>x\<bar>\<rfloor> - 52) (- 1074)"

definition round64 :: "real \<Rightarrow> real" where
  \<comment> \<open>the \<^verbatim>\<open>float64\<close> nearest to \<open>x\<close>\<close>
  "round64 x =
     (if x = 0 then 0
      else real_of_int (round_half_even (x / 2 powi ulp_exp x)) * 2 powi ulp_exp x)"

section \<open>What the program asks of the outside world\<close>

text \<open>
  The standard library's clock and calendar arithmetic and its number formatting are not
  part of the repository. The functions of package \<^verbatim>\<open>time\<close> and the one use of
  \<^verbatim>\<open>fmt.Sprintf("%.0f", x)\<close> are taken as parameters; \<open>'t\<close> stands for
  \<^verbatim>\<open>time.Time\<close>.
\<close>

record 't golib =
  time_Parse :: "string \<Rightarrow> string \<Rightarrow> 't option"
    \<comment> \<open>\<^verbatim>\<open>time.Parse(layout, value)\<close>; \<^term>\<open>None\<close> when it returns an error\<close>
  Time_Format :: "'t \<Rightarrow> string \<Rightarrow> string"
  Time_Hour :: "'t \<Rightarrow> int"
  Time_AddDate :: "'t \<Rightarrow> int \<Rightarrow> int \<Rightarrow> int \<Rightarrow> 't"
  Time_After :: "'t \<Rightarrow> 't \<Rightarrow> bool"
  Time_Sub_Hours :: "'t \<Rightarrow> 't \<Rightarrow> real"
    \<comment> \<open>\<^verbatim>\<open>t.Sub(u).Hours()\<close>\<close>
  Time_zero :: "'t"
    \<comment> \<open>the zero \<^verbatim>\<open>time.Time\<close>, which \<^verbatim>\<open>time.Parse\<close> returns beside an error\<close>
  Sprintf_f0 :: "real \<Rightarrow> string"
    \<comment> \<open>\<^verbatim>\<open>fmt.Sprintf("%.0f", x)\<close>\<close>

definition RFC3339 :: string where
  "RFC3339 = ''2006-01-02T15:04:05Z07:00''"

definition Contains :: "string \<Rightarrow> string \<Rightarrow> bool" where
  \<comment> \<open>\<^verbatim>\<open>strings.Contains(s, substr)\<close>\<close>
  "Contains s substr = list_ex (\<lambda>t. prefix substr t) (suffixes s)"

definition HasPrefix :: "string \<Rightarrow> string \<Rightarrow> bool" where
  \<comment> \<open>\<^verbatim>\<open>strings.HasPrefix(s, p)\<close>\<close>
  "HasPrefix s p = prefix p s"

text \<open>
  An external command is run with \<^verbatim>\<open>cmd.Output()\<close> and its output decoded with
  \<^verbatim>\<open>json.Unmarshal\<close>. Either step can fail; the string is the error as \<^verbatim>\<open>%v\<close>
  prints it.
\<close>

datatype 'a fetched = ExecError string | UnmarshalError string | Decoded 'a

text \<open>
  The health database is the table \<^verbatim>\<open>metrics(metric_name, timestamp, value)\<close>, whose
  \<^verbatim>\<open>value\<close> column may hold NULL. \<^verbatim>\<open>sql.Open\<close> can fail, and so can the
  statements sent to an opened handle (a missing file or table shows only then).
\<close>

record metric_row =
  metric_name :: string
  timestamp :: string
  mvalue :: "real option"

datatype sqldb = StatementsFail string | Table "metric_row list"

datatype sqlopen = OpenError string | Opened sqldb

subsection \<open>SQL, as far as the statements of the program use it\<close>

text \<open>
  Every statement selects with \<^verbatim>\<open>timestamp LIKE ? || '%'\<close>, the parameter being a
  date that \<^verbatim>\<open>Format("2006-01-02")\<close> printed: digits and hyphens, no wildcard and no
  letter, so that the pattern matches exactly the timestamps the date is a prefix of.
\<close>

definition like_prefix :: "string \<Rightarrow> string \<Rightarrow> bool" where
  "like_prefix ts date = prefix date ts"

definition non_null :: "'a option list \<Rightarrow> 'a list" where
  "non_null vs = concat (map (\<lambda>v. case v of None \<Rightarrow> [] | Some x \<Rightarrow> [x]) vs)"

definition sql_AVG :: "real option list \<Rightarrow> real option" where
  \<comment> \<open>\<^verbatim>\<open>AVG\<close> skips NULL and is NULL when nothing is left\<close>
  "sql_AVG vs = (let xs = non_null vs
                 in if xs = [] then None else Some (sum_list xs / real (length xs)))"

definition sql_SUM :: "real option list \<Rightarrow> real option" where
  \<comment> \<open>\<^verbatim>\<open>SUM\<close> skips NULL and is NULL when nothing is left\<close>
  "sql_SUM vs = (let xs = non_null vs in if xs = [] then None else Some (sum_list xs))"

definition sql_COALESCE :: "'a option \<Rightarrow> 'a \<Rightarrow> 'a" where
  "sql_COALESCE v d = (case v of None \<Rightarrow> d | Some x \<Rightarrow> x)"

fun latest_row :: "metric_row list \<Rightarrow> metric_row option" where
  \<comment> \<open>\<^verbatim>\<open>ORDER BY timestamp DESC LIMIT 1\<close>. Among rows of equal timestamp SQL leaves the
      choice open; here the earliest in the table is taken.\<close>
  "latest_row [] = None"
| "latest_row (r # rs) =
     (case latest_row rs of
        None \<Rightarrow> Some r
      | Some r' \<Rightarrow> if timestamp r < timestamp r' then Some r' else Some r)"

section \<open>Evening mode: \<^verbatim>\<open>evening.go\<close>\<close>

subsection \<open>The pure calculations\<close>

definition UserBMRKcal :: int where
  "UserBMRKcal = 1636"

definition UserProteinTargetG :: int where
  "UserProteinTargetG = 152"

definition CalculateBMR :: "real \<Rightarrow> real \<Rightarrow> int \<Rightarrow> bool \<Rightarrow> int" where
  "CalculateBMR weightKg heightCm age isMale =
     (let bmr = (10 * weightKg) + (6.25 * heightCm) - (5 * real_of_int age);
          bmr = (if isMale then bmr + 5 else bmr - 161)
      in go_int (bmr + 0.5))"

definition CalculateEnergyBalance :: "int \<Rightarrow> real \<Rightarrow> real \<Rightarrow> int \<times> string" where
  "CalculateEnergyBalance bmr activeEnergy consumedEnergy =
     (let totalBurned = real_of_int bmr + activeEnergy;
          balance = go_int (consumedEnergy - totalBurned + 0.5);
          status = (if balance < -50 then ''deficit''
                    else if balance > 50 then ''surplus''
                    else ''maintenance'')
      in (balance, status))"

definition CalculateProteinStatus :: "real \<Rightarrow> real \<Rightarrow> real \<times> bool" where
  \<comment> \<open>the difference and the product are \<^verbatim>\<open>float64\<close> operations, and the constant
      \<^verbatim>\<open>0.95\<close> is converted to \<^verbatim>\<open>float64\<close>\<close>
  "CalculateProteinStatus consumed target =
     (let remaining = round64 (target - consumed);
          remaining = (if remaining < 0 then 0 else remaining);
          onTrack = (consumed \<ge> round64 (target * round64 0.95))
      in (remaining, onTrack))"

definition ParseMode :: "bool \<Rightarrow> bool \<Rightarrow> string \<times> string option" where
  \<comment> \<open>The Go result \<^verbatim>\<open>(string, error)\<close>: the mode and the error.\<close>
  "ParseMode morning evening =
     (if morning \<and> evening then ('''', Some ''cannot specify both --morning and --evening'')
      else if evening then (''evening'', None)
      else (''morning'', None))"

subsection \<open>The energy section of \<^verbatim>\<open>getEveningHealthData\<close>\<close>

record EnergyData =
  DeficitOrSurplusKcal :: int
  Status :: string
  BMRKcal :: int
  ActiveKcal :: real
  TotalBurnedKcal :: real
  ConsumedKcal :: real

record ProteinData =
  ConsumedG :: real
  TargetG :: int
  RemainingG :: real
  OnTrack :: bool

text \<open>
  Of the evening report, the fields that the lines modelled here read or write: the
  header, the energy and protein records and the warnings. The activity, recovery,
  protocol and tomorrow records are filled by later lines and by other functions, none of
  which writes to \<^verbatim>\<open>Energy\<close>.
\<close>

record EveningBriefing =
  Mode :: string
  GeneratedAt :: string
  TargetDate :: string
  Energy :: EnergyData
  Protein :: ProteinData
  Errors :: "string list"

definition queryDayTotal :: "sqldb \<Rightarrow> string \<Rightarrow> string \<Rightarrow> real \<times> string option" where
  \<comment> \<open>\<^verbatim>\<open>SELECT COALESCE(SUM(value), 0) FROM metrics WHERE metric_name = ? AND timestamp LIKE ? || '%'\<close>,
      scanned into \<^verbatim>\<open>total\<close>, which starts at zero\<close>
  "queryDayTotal db metricName date =
     (case db of
        StatementsFail err \<Rightarrow> (0, Some err)
      | Table rows \<Rightarrow>
          (sql_COALESCE
             (sql_SUM (map mvalue
                (filter (\<lambda>r. metric_name r = metricName \<and> like_prefix (timestamp r) date) rows)))
             0,
           None))"

definition newEveningBriefing :: "string \<Rightarrow> string \<Rightarrow> EveningBriefing" where
  \<comment> \<open>the composite literal of \<^verbatim>\<open>RunEveningBriefing\<close>\<close>
  "newEveningBriefing generatedAt today =
     \<lparr>Mode = ''evening'',
      GeneratedAt = generatedAt,
      TargetDate = today,
      Energy = \<lparr>DeficitOrSurplusKcal = 0, Status = '''', BMRKcal = UserBMRKcal,
                 ActiveKcal = 0, TotalBurnedKcal = 0, ConsumedKcal = 0\<rparr>,
      Protein = \<lparr>ConsumedG = 0, TargetG = UserProteinTargetG, RemainingG = 0,
                  OnTrack = False\<rparr>,
      Errors = []\<rparr>"

definition getEveningEnergy :: "sqlopen \<Rightarrow> EveningBriefing \<Rightarrow> string \<Rightarrow> EveningBriefing" where
  \<comment> \<open>\<^verbatim>\<open>getEveningHealthData\<close> from its first line to the call of
      \<^verbatim>\<open>CalculateEnergyBalance\<close>\<close>
  "getEveningEnergy opened b today =
     (case opened of
        OpenError err \<Rightarrow> b\<lparr>Errors := Errors b @ [''sqlite open error: '' @ err]\<rparr>
      | Opened db \<Rightarrow>
          (let b = (case queryDayTotal db ''active_energy'' today of
                      (_, Some err) \<Rightarrow>
                        b\<lparr>Errors := Errors b @ [''active_energy query error: '' @ err]\<rparr>
                    | (activeEnergy, None) \<Rightarrow>
                        b\<lparr>Energy := (Energy b)\<lparr>ActiveKcal := activeEnergy\<rparr>\<rparr>);
               b = (case queryDayTotal db ''dietary_energy'' today of
                      (_, Some err) \<Rightarrow>
                        b\<lparr>Errors := Errors b @ [''dietary_energy query error: '' @ err]\<rparr>
                    | (consumedEnergy, None) \<Rightarrow>
                        b\<lparr>Energy := (Energy b)\<lparr>ConsumedKcal := consumedEnergy\<rparr>\<rparr>);
               b = b\<lparr>Energy := (Energy b)\<lparr>TotalBurnedKcal :=
                        real_of_int (BMRKcal (Energy b)) + ActiveKcal (Energy b)\<rparr>\<rparr>
           in case CalculateEnergyBalance (BMRKcal (Energy b)) (ActiveKcal (Energy b))
                     (ConsumedKcal (Energy b)) of
                (balance, status) \<Rightarrow>
                  b\<lparr>Energy := (Energy b)\<lparr>DeficitOrSurplusKcal := balance,
                                            Status := status\<rparr>\<rparr>))"

text \<open>Rounding to the nearest whole number with halves going up, as the specification words it.\<close>

definition round_half_up :: "real \<Rightarrow> int" where
  "round_half_up x = \<lfloor>x + 1 / 2\<rfloor>"

section \<open>Morning mode: the report model\<close>

record WorkoutSummary =
  ID :: string
  Title :: string
  Date :: string
  Duration :: string
  Exercises :: "string list"

record TrainingData =
  LastWorkout :: "WorkoutSummary option"
  DaysSinceLast :: int
  RecentWorkouts :: "WorkoutSummary list"
  WeeklyCount :: int

record SleepData =
  TotalHours :: "real option"
  DeepHours :: "real option"
  REMHours :: "real option"
  CoreHours :: "real option"
  DataDate :: string
  IsCurrentDay :: bool
  DataAvailable :: bool

record VitalsData =
  RestingHR :: "real option"
  HRV :: "real option"
  SpO2 :: "real option"
  RespiratoryRate :: "real option"

record CalendarEvent =
  Time :: string
  Summary :: string
  Source :: string

record CalendarData =
  MorningEvents :: "CalendarEvent list"
  AfternoonEvents :: "CalendarEvent list"
  MorningCount :: int
  FirstEventTime :: string

record MedTask =
  Name :: string
  DueTime :: string
  DueDate :: string

record MedsData =
  DueToday :: "MedTask list"
  Overdue :: "MedTask list"
  Completed :: "MedTask list"

record Classification =
  SleepQuality :: string
  MorningLoad :: string
  RecoveryStatus :: string
  Recommendation :: string

record MorningBriefing =
  GeneratedAt :: string
  TargetDate :: string
  Sleep :: SleepData
  Vitals :: VitalsData
  Calendar :: CalendarData
  Meds :: MedsData
  Training :: TrainingData
  Classification :: Classification
  Errors :: "string list"

text \<open>The payloads of the four providers, as \<^verbatim>\<open>json.Unmarshal\<close> fills them.\<close>

record Stat =
  Value :: real
  Unit :: string
  Timestamp :: string

record HealthSummary =
  LatestStats :: "string \<rightharpoonup> Stat"

record TodoistDue =
  Date :: string
  DateTime :: string

record TodoistTask =
  Content :: string
  Labels :: "string list"
  IsCompleted :: bool
  Due :: "TodoistDue option"

record TodoistResponse =
  Results :: "TodoistTask list"

record GogStart =
  DateTime :: string
  Date :: string

record GogCalendarEvent =
  Start :: GogStart
  Summary :: string

record GogCalendarResponse =
  Events :: "GogCalendarEvent list"

record HevyExercise =
  Name :: string

record HevyWorkout =
  ID :: string
  Title :: string
  StartTime :: string
  Duration :: string
  Exercises :: "HevyExercise list"

text \<open>Everything one morning run reads from outside.\<close>

record 't world =
  now_main :: "'t"
    \<comment> \<open>\<^verbatim>\<open>time.Now()\<close> in \<^verbatim>\<open>main\<close>\<close>
  now_training :: "'t"
    \<comment> \<open>\<^verbatim>\<open>time.Now()\<close> in \<^verbatim>\<open>getTrainingData\<close>\<close>
  health_ingest :: "HealthSummary fetched"
  health_db :: sqlopen
  gog :: "string \<Rightarrow> GogCalendarResponse fetched"
    \<comment> \<open>by account\<close>
  td_today :: "TodoistResponse fetched"
  hevy :: "HevyWorkout list fetched"

section \<open>Morning mode: fetching\<close>

definition yesterday :: "'t golib \<Rightarrow> string \<Rightarrow> string" where
  "yesterday L today =
     (let t = (case time_Parse L ''2006-01-02'' today of Some t \<Rightarrow> t | None \<Rightarrow> Time_zero L)
      in Time_Format L (Time_AddDate L t 0 0 (-1)) ''2006-01-02'')"

definition addError :: "string \<Rightarrow> MorningBriefing \<Rightarrow> MorningBriefing" where
  \<comment> \<open>\<^verbatim>\<open>b.Errors = append(b.Errors, msg)\<close>\<close>
  "addError msg b = b\<lparr>Errors := Errors b @ [msg]\<rparr>"

definition getHealthData ::
  "'t golib \<Rightarrow> HealthSummary fetched \<Rightarrow> MorningBriefing \<Rightarrow> string \<Rightarrow> MorningBriefing" where
  "getHealthData L answer b today =
     (case answer of
        ExecError err \<Rightarrow> addError (''health-ingest error: '' @ err) b
      | UnmarshalError err \<Rightarrow> addError (''health JSON parse error: '' @ err) b
      | Decoded summary \<Rightarrow>
          (let b = (case LatestStats summary ''sleep_total'' of
                      None \<Rightarrow> b
                    | Some sleep \<Rightarrow>
                        (let b = b\<lparr>Sleep := (Sleep b)\<lparr>DataAvailable := True,
                                                      TotalHours := Some (Value sleep),
                                                      DataDate := Timestamp sleep\<rparr>\<rparr>
                         in if Contains (Timestamp sleep) today
                               \<or> Contains (Timestamp sleep) (yesterday L today)
                            then b\<lparr>Sleep := (Sleep b)\<lparr>IsCurrentDay := True\<rparr>\<rparr>
                            else b));
               b = (case LatestStats summary ''sleep_deep'' of
                      None \<Rightarrow> b
                    | Some deep \<Rightarrow> b\<lparr>Sleep := (Sleep b)\<lparr>DeepHours := Some (Value deep)\<rparr>\<rparr>);
               b = (case LatestStats summary ''sleep_rem'' of
                      None \<Rightarrow> b
                    | Some rem \<Rightarrow> b\<lparr>Sleep := (Sleep b)\<lparr>REMHours := Some (Value rem)\<rparr>\<rparr>);
               b = (case LatestStats summary ''resting_heart_rate'' of
                      None \<Rightarrow> b
                    | Some rhr \<Rightarrow> b\<lparr>Vitals := (Vitals b)\<lparr>RestingHR := Some (Value rhr)\<rparr>\<rparr>);
               b = (case LatestStats summary ''heart_rate_variability'' of
                      None \<Rightarrow> b
                    | Some hrv \<Rightarrow> b\<lparr>Vitals := (Vitals b)\<lparr>HRV := Some (Value hrv)\<rparr>\<rparr>);
               b = (case LatestStats summary ''blood_oxygen_saturation'' of
                      None \<Rightarrow> b
                    | Some spo2 \<Rightarrow> b\<lparr>Vitals := (Vitals b)\<lparr>SpO2 := Some (Value spo2)\<rparr>\<rparr>)
           in b))"

subsection \<open>The three statements sent to the health database\<close>

definition queryAverageHRV :: "sqldb \<Rightarrow> string \<Rightarrow> real option \<times> string option" where
  "queryAverageHRV db date =
     (case db of
        StatementsFail err \<Rightarrow> (None, Some err)
      | Table rows \<Rightarrow>
          (let avg = sql_AVG (map mvalue
                       (filter (\<lambda>r. metric_name r = ''heart_rate_variability''
                                     \<and> like_prefix (timestamp r) date) rows))
           in case avg of None \<Rightarrow> (None, None) | Some v \<Rightarrow> (Some v, None)))"

definition sleepStageRow ::
  "metric_row \<Rightarrow> real option \<times> real option \<times> real option
     \<Rightarrow> real option \<times> real option \<times> real option" where
  \<comment> \<open>the body of the \<^verbatim>\<open>rows.Next()\<close> loop; scanning a NULL into a \<^verbatim>\<open>float64\<close> fails\<close>
  "sleepStageRow r acc =
     (case acc of (deep, rem, core) \<Rightarrow>
        (case mvalue r of
           None \<Rightarrow> (deep, rem, core)
         | Some v \<Rightarrow>
             if metric_name r = ''sleep_deep'' then (Some v, rem, core)
             else if metric_name r = ''sleep_rem'' then (deep, Some v, core)
             else if metric_name r = ''sleep_core'' then (deep, rem, Some v)
             else (deep, rem, core)))"

definition querySleepStages ::
  "sqldb \<Rightarrow> string \<Rightarrow> real option \<times> real option \<times> real option \<times> string option" where
  "querySleepStages db date =
     (case db of
        StatementsFail err \<Rightarrow> (None, None, None, Some err)
      | Table rows \<Rightarrow>
          (case fold sleepStageRow
                  (filter (\<lambda>r. metric_name r \<in> {''sleep_deep'', ''sleep_rem'', ''sleep_core''}
                                \<and> like_prefix (timestamp r) date) rows)
                  (None, None, None) of
             (deep, rem, core) \<Rightarrow> (deep, rem, core, None)))"

definition queryLatestRespiratoryRate :: "sqldb \<Rightarrow> string \<Rightarrow> real option \<times> string option" where
  "queryLatestRespiratoryRate db date =
     (case db of
        StatementsFail err \<Rightarrow> (None, Some err)
      | Table rows \<Rightarrow>
          (case latest_row (filter (\<lambda>r. metric_name r = ''respiratory_rate''
                                         \<and> like_prefix (timestamp r) date) rows) of
             None \<Rightarrow> (None, None)
           | Some r \<Rightarrow> (case mvalue r of None \<Rightarrow> (None, None) | Some v \<Rightarrow> (Some v, None))))"

definition getHealthDataFromSQLite :: "sqlopen \<Rightarrow> MorningBriefing \<Rightarrow> string \<Rightarrow> MorningBriefing" where
  "getHealthDataFromSQLite opened b today =
     (case opened of
        OpenError err \<Rightarrow> addError (''sqlite open error: '' @ err) b
      | Opened db \<Rightarrow>
          (let b = (case queryAverageHRV db today of
                      (_, Some err) \<Rightarrow> addError (''HRV query error: '' @ err) b
                    | (Some avgHRV, None) \<Rightarrow> b\<lparr>Vitals := (Vitals b)\<lparr>HRV := Some avgHRV\<rparr>\<rparr>
                    | (None, None) \<Rightarrow> b);
               b = (case querySleepStages db today of
                      (_, _, _, Some err) \<Rightarrow> addError (''sleep stages query error: '' @ err) b
                    | (deep, rem, core, None) \<Rightarrow>
                        (let b = (case deep of None \<Rightarrow> b
                                  | Some v \<Rightarrow> b\<lparr>Sleep := (Sleep b)\<lparr>DeepHours := Some v\<rparr>\<rparr>);
                             b = (case rem of None \<Rightarrow> b
                                  | Some v \<Rightarrow> b\<lparr>Sleep := (Sleep b)\<lparr>REMHours := Some v\<rparr>\<rparr>);
                             b = (case core of None \<Rightarrow> b
                                  | Some v \<Rightarrow> b\<lparr>Sleep := (Sleep b)\<lparr>CoreHours := Some v\<rparr>\<rparr>)
                         in b));
               b = (case queryLatestRespiratoryRate db today of
                      (_, Some err) \<Rightarrow> addError (''respiratory rate query error: '' @ err) b
                    | (Some rr, None) \<Rightarrow> b\<lparr>Vitals := (Vitals b)\<lparr>RespiratoryRate := Some rr\<rparr>\<rparr>
                    | (None, None) \<Rightarrow> b)
           in b))"

subsection \<open>Calendar\<close>

definition calendarEvent ::
  "'t golib \<Rightarrow> string \<Rightarrow> string \<Rightarrow> GogCalendarEvent \<Rightarrow> MorningBriefing \<Rightarrow> MorningBriefing" where
  \<comment> \<open>the body of the loop over \<^verbatim>\<open>resp.Events\<close>\<close>
  "calendarEvent L today source e b =
     (let startTime = GogStart.DateTime (Start e)
      in if startTime = '''' then b
         else if \<not> HasPrefix startTime today then b
         else (case time_Parse L RFC3339 startTime of
                 None \<Rightarrow> b
               | Some t \<Rightarrow>
                   (let hour = Time_Hour L t;
                        event = \<lparr>Time = Time_Format L t ''15:04'',
                                 CalendarEvent.Summary = GogCalendarEvent.Summary e,
                                 Source = source\<rparr>
                    in if hour < 12
                       then b\<lparr>Calendar := (Calendar b)\<lparr>MorningEvents :=
                                   MorningEvents (Calendar b) @ [event]\<rparr>\<rparr>
                       else if hour < 18
                       then b\<lparr>Calendar := (Calendar b)\<lparr>AfternoonEvents :=
                                   AfternoonEvents (Calendar b) @ [event]\<rparr>\<rparr>
                       else b)))"

definition getCalendarEvents ::
  "'t golib \<Rightarrow> (string \<Rightarrow> GogCalendarResponse fetched) \<Rightarrow> MorningBriefing \<Rightarrow> string \<Rightarrow> string
     \<Rightarrow> string \<Rightarrow> MorningBriefing" where
  "getCalendarEvents L answers b today account source =
     (case answers account of
        ExecError err \<Rightarrow> addError (''calendar error ('' @ source @ ''): '' @ err) b
      | UnmarshalError err \<Rightarrow>
          addError (''calendar JSON parse error ('' @ source @ ''): '' @ err) b
      | Decoded resp \<Rightarrow> fold (calendarEvent L today source) (Events resp) b)"

definition getCalendarData ::
  "'t golib \<Rightarrow> (string \<Rightarrow> GogCalendarResponse fetched) \<Rightarrow> MorningBriefing \<Rightarrow> string
     \<Rightarrow> MorningBriefing" where
  "getCalendarData L answers b today =
     (let b = getCalendarEvents L answers b today ''jai@govindani.com'' ''personal'';
          b = getCalendarEvents L answers b today ''jai.g@ewa-services.com'' ''work'';
          b = b\<lparr>Calendar := (Calendar b)\<lparr>MorningCount :=
                     int (length (MorningEvents (Calendar b)))\<rparr>\<rparr>
      in case MorningEvents (Calendar b) of
           [] \<Rightarrow> b
         | first # _ \<Rightarrow> b\<lparr>Calendar := (Calendar b)\<lparr>FirstEventTime := Time first\<rparr>\<rparr>)"

subsection \<open>Medication tasks\<close>

text \<open>
  The two labels that mark a medication task, byte for byte as the string literals stand
  in the source file (the first ends in \<open>Meds\<close>).
\<close>

definition medsLabel :: string where
  "medsLabel = [CHR 0xC3, CHR 0xB0, CHR 0xC5, CHR 0xB8, CHR 0xE2, CHR 0x80, CHR 0x99,
                CHR 0xC5, CHR 0xA0] @ ''Meds''"

definition shotLabel :: string where
  "shotLabel = [CHR 0xC3, CHR 0xB0, CHR 0xC5, CHR 0xB8, CHR 0xE2, CHR 0x80, CHR 0x99,
                CHR 0xE2, CHR 0x80, CHR 0xB0]"

definition isMed :: "TodoistTask \<Rightarrow> bool" where
  "isMed task = list_ex (\<lambda>label. label = medsLabel \<or> label = shotLabel) (Labels task)"

definition medOf :: "'t golib \<Rightarrow> TodoistTask \<Rightarrow> MedTask" where
  \<comment> \<open>the \<^verbatim>\<open>MedTask\<close> built for a task: its name, and the due date and time when
      there is a due object\<close>
  "medOf L task =
     (let med = \<lparr>MedTask.Name = Content task, DueTime = '''', DueDate = ''''\<rparr>
      in case Due task of
           None \<Rightarrow> med
         | Some due \<Rightarrow>
             (let med = med\<lparr>DueDate := TodoistDue.Date due\<rparr>
              in if TodoistDue.DateTime due \<noteq> ''''
                 then (case time_Parse L RFC3339 (TodoistDue.DateTime due) of
                         Some t \<Rightarrow> med\<lparr>DueTime := Time_Format L t ''15:04''\<rparr>
                       | None \<Rightarrow> med)
                 else med))"

definition medTask :: "'t golib \<Rightarrow> string \<Rightarrow> TodoistTask \<Rightarrow> MorningBriefing \<Rightarrow> MorningBriefing" where
  \<comment> \<open>the body of the loop over \<^verbatim>\<open>resp.Results\<close>\<close>
  "medTask L today task b =
     (if \<not> isMed task then b
      else (let med = medOf L task
            in if IsCompleted task
               then b\<lparr>Meds := (Meds b)\<lparr>Completed := Completed (Meds b) @ [med]\<rparr>\<rparr>
               else if (case Due task of None \<Rightarrow> False | Some due \<Rightarrow> TodoistDue.Date due < today)
               then b\<lparr>Meds := (Meds b)\<lparr>Overdue := Overdue (Meds b) @ [med]\<rparr>\<rparr>
               else b\<lparr>Meds := (Meds b)\<lparr>DueToday := DueToday (Meds b) @ [med]\<rparr>\<rparr>))"

definition getMedsData ::
  "'t golib \<Rightarrow> TodoistResponse fetched \<Rightarrow> MorningBriefing \<Rightarrow> string \<Rightarrow> MorningBriefing" where
  "getMedsData L answer b today =
     (case answer of
        ExecError err \<Rightarrow> addError (''todoist error: '' @ err) b
      | UnmarshalError err \<Rightarrow> addError (''todoist JSON parse error: '' @ err) b
      | Decoded resp \<Rightarrow> fold (medTask L today) (Results resp) b)"

subsection \<open>Training\<close>

definition workout ::
  "'t golib \<Rightarrow> 't \<Rightarrow> 't \<Rightarrow> nat \<times> HevyWorkout \<Rightarrow> MorningBriefing \<times> int \<Rightarrow> MorningBriefing \<times> int" where
  \<comment> \<open>the body of the loop over \<^verbatim>\<open>workouts\<close>; the state is the report and \<^verbatim>\<open>weeklyCount\<close>\<close>
  "workout L now weekAgo iw st =
     (case (iw, st) of ((i, w), (b, weeklyCount)) \<Rightarrow>
        (case time_Parse L RFC3339 (StartTime w) of
           None \<Rightarrow> (b, weeklyCount)
         | Some workoutDate \<Rightarrow>
             (let exercises = map HevyExercise.Name (HevyWorkout.Exercises w);
                  summary = \<lparr>WorkoutSummary.ID = HevyWorkout.ID w,
                             WorkoutSummary.Title = HevyWorkout.Title w,
                             WorkoutSummary.Date = Time_Format L workoutDate ''2006-01-02'',
                             WorkoutSummary.Duration = HevyWorkout.Duration w,
                             WorkoutSummary.Exercises = exercises\<rparr>;
                  b = (if i = 0
                       then b\<lparr>Training := (Training b)\<lparr>
                                LastWorkout := Some summary,
                                DaysSinceLast := go_int (Time_Sub_Hours L now workoutDate / 24)\<rparr>\<rparr>
                       else b);
                  weeklyCount = (if Time_After L workoutDate weekAgo
                                 then weeklyCount + 1 else weeklyCount);
                  b = b\<lparr>Training := (Training b)\<lparr>RecentWorkouts :=
                           RecentWorkouts (Training b) @ [summary]\<rparr>\<rparr>
              in (b, weeklyCount))))"

definition getTrainingData ::
  "'t golib \<Rightarrow> 't \<Rightarrow> HevyWorkout list fetched \<Rightarrow> MorningBriefing \<Rightarrow> string \<Rightarrow> MorningBriefing" where
  "getTrainingData L now answer b today =
     (case answer of
        ExecError err \<Rightarrow> addError (''hevy error: '' @ err) b
      | UnmarshalError err \<Rightarrow> addError (''hevy JSON parse error: '' @ err) b
      | Decoded workouts \<Rightarrow>
          if length workouts = 0 then b
          else (let weekAgo = Time_AddDate L now 0 0 (-7)
                in case fold (workout L now weekAgo) (enumerate 0 workouts) (b, 0) of
                     (b, weeklyCount) \<Rightarrow>
                       b\<lparr>Training := (Training b)\<lparr>WeeklyCount := weeklyCount\<rparr>\<rparr>))"

section \<open>Morning mode: classification\<close>

definition classifySleep :: "MorningBriefing \<Rightarrow> MorningBriefing" where
  \<comment> \<open>sleep quality, factoring in deep sleep\<close>
  "classifySleep b =
     (if \<not> DataAvailable (Sleep b) \<or> \<not> IsCurrentDay (Sleep b)
      then b\<lparr>Classification := (Classification b)\<lparr>SleepQuality := ''UNKNOWN''\<rparr>\<rparr>
      else (case TotalHours (Sleep b) of
              None \<Rightarrow> b
            | Some hours \<Rightarrow>
                (let b = (if hours \<ge> 7
                          then b\<lparr>Classification := (Classification b)\<lparr>SleepQuality := ''GOOD''\<rparr>\<rparr>
                          else if hours \<ge> 5
                          then b\<lparr>Classification := (Classification b)\<lparr>SleepQuality := ''OK''\<rparr>\<rparr>
                          else b\<lparr>Classification := (Classification b)\<lparr>SleepQuality := ''POOR''\<rparr>\<rparr>)
                 in if (case DeepHours (Sleep b) of None \<Rightarrow> False | Some deep \<Rightarrow> deep < 1.0)
                    then (if SleepQuality (Classification b) = ''GOOD''
                          then b\<lparr>Classification := (Classification b)\<lparr>SleepQuality := ''OK''\<rparr>\<rparr>
                          else if SleepQuality (Classification b) = ''OK''
                          then b\<lparr>Classification := (Classification b)\<lparr>SleepQuality := ''POOR''\<rparr>\<rparr>
                          else b)
                    else b)))"

definition classifyRecovery :: "MorningBriefing \<Rightarrow> MorningBriefing" where
  \<comment> \<open>recovery status based on HRV\<close>
  "classifyRecovery b =
     (case HRV (Vitals b) of
        None \<Rightarrow> b\<lparr>Classification := (Classification b)\<lparr>RecoveryStatus := ''UNKNOWN''\<rparr>\<rparr>
      | Some hrv \<Rightarrow>
          if hrv \<le> 20
          then b\<lparr>Classification := (Classification b)\<lparr>RecoveryStatus := ''POOR''\<rparr>\<rparr>
          else if hrv < 40
          then b\<lparr>Classification := (Classification b)\<lparr>RecoveryStatus := ''OK''\<rparr>\<rparr>
          else b\<lparr>Classification := (Classification b)\<lparr>RecoveryStatus := ''GOOD''\<rparr>\<rparr>)"

definition classifyLoad :: "MorningBriefing \<Rightarrow> MorningBriefing" where
  \<comment> \<open>morning load\<close>
  "classifyLoad b =
     (let count = MorningCount (Calendar b)
      in if count = 0
         then b\<lparr>Classification := (Classification b)\<lparr>MorningLoad := ''CLEAR''\<rparr>\<rparr>
         else if count \<le> 2
         then b\<lparr>Classification := (Classification b)\<lparr>MorningLoad := ''LIGHT''\<rparr>\<rparr>
         else b\<lparr>Classification := (Classification b)\<lparr>MorningLoad := ''PACKED''\<rparr>\<rparr>)"

definition msgPoorSleepPoorRecovery :: string where
  "msgPoorSleepPoorRecovery =
     ''Poor sleep + poor recovery (low HRV). Take it very easy today, prioritize rest and recovery.''"

definition msgLowHRV :: "'t golib \<Rightarrow> real \<Rightarrow> string" where
  "msgLowHRV L hrv =
     ''HRV is low ('' @ Sprintf_f0 L hrv
       @ ''ms) indicating poor recovery. Consider lighter activity today.''"

definition msgRoughPacked :: string where
  "msgRoughPacked =
     ''Rough night + packed morning. Prioritize must-dos, defer what you can. Power through essentials only.''"

definition msgRoughLight :: string where
  "msgRoughLight =
     ''Rough night but light morning. Ease in, handle the few things, then reassess energy.''"

definition msgRoughClear :: string where
  "msgRoughClear = ''Rough night, clear morning. Take it slow, no rush. Recovery day vibes.''"

definition msgDecentBusy :: string where
  "msgDecentBusy = ''Decent sleep, busy morning. You'' @ [CHR 0x27] @ ''ve got this, stay focused.''"

definition msgWellRested :: string where
  "msgWellRested = ''Well rested. Attack the day.''"

definition msgUnavailable :: string where
  "msgUnavailable = ''Sleep data unavailable. Check energy levels and adjust accordingly.''"

definition recommend :: "'t golib \<Rightarrow> MorningBriefing \<Rightarrow> MorningBriefing" where
  \<comment> \<open>the recommendation, which now includes the recovery status\<close>
  "recommend L b =
     (let sleep = SleepQuality (Classification b);
          load = MorningLoad (Classification b);
          recovery = RecoveryStatus (Classification b)
      in if recovery = ''POOR'' \<and> HRV (Vitals b) \<noteq> None
         then (if sleep = ''POOR''
               then b\<lparr>Classification := (Classification b)\<lparr>Recommendation :=
                          msgPoorSleepPoorRecovery\<rparr>\<rparr>
               else b\<lparr>Classification := (Classification b)\<lparr>Recommendation :=
                          msgLowHRV L (the (HRV (Vitals b)))\<rparr>\<rparr>)
         else if sleep = ''POOR'' \<and> load = ''PACKED''
         then b\<lparr>Classification := (Classification b)\<lparr>Recommendation := msgRoughPacked\<rparr>\<rparr>
         else if sleep = ''POOR'' \<and> load = ''LIGHT''
         then b\<lparr>Classification := (Classification b)\<lparr>Recommendation := msgRoughLight\<rparr>\<rparr>
         else if sleep = ''POOR'' \<and> load = ''CLEAR''
         then b\<lparr>Classification := (Classification b)\<lparr>Recommendation := msgRoughClear\<rparr>\<rparr>
         else if sleep = ''OK'' \<and> load = ''PACKED''
         then b\<lparr>Classification := (Classification b)\<lparr>Recommendation := msgDecentBusy\<rparr>\<rparr>
         else if sleep = ''GOOD''
         then b\<lparr>Classification := (Classification b)\<lparr>Recommendation := msgWellRested\<rparr>\<rparr>
         else b\<lparr>Classification := (Classification b)\<lparr>Recommendation := msgUnavailable\<rparr>\<rparr>)"

definition classify :: "'t golib \<Rightarrow> MorningBriefing \<Rightarrow> MorningBriefing" where
  "classify L b = recommend L (classifyLoad (classifyRecovery (classifySleep b)))"

section \<open>Morning mode: the run\<close>

definition newBriefing :: "string \<Rightarrow> string \<Rightarrow> MorningBriefing" where
  \<comment> \<open>the composite literal of \<^verbatim>\<open>main\<close>: every field it does not name has Go's zero value\<close>
  "newBriefing generatedAt today =
     \<lparr>GeneratedAt = generatedAt,
      TargetDate = today,
      Sleep = \<lparr>TotalHours = None, DeepHours = None, REMHours = None, CoreHours = None,
               DataDate = '''', IsCurrentDay = False, DataAvailable = False\<rparr>,
      Vitals = \<lparr>RestingHR = None, HRV = None, SpO2 = None, RespiratoryRate = None\<rparr>,
      Calendar = \<lparr>MorningEvents = [], AfternoonEvents = [], MorningCount = 0,
                  FirstEventTime = ''''\<rparr>,
      Meds = \<lparr>DueToday = [], Overdue = [], Completed = []\<rparr>,
      Training = \<lparr>LastWorkout = None, DaysSinceLast = 0, RecentWorkouts = [],
                  WeeklyCount = 0\<rparr>,
      Classification = \<lparr>SleepQuality = '''', MorningLoad = '''', RecoveryStatus = '''',
                        Recommendation = ''''\<rparr>,
      Errors = []\<rparr>"

definition main :: "'t golib \<Rightarrow> 't world \<Rightarrow> MorningBriefing" where
  \<comment> \<open>the report that \<^verbatim>\<open>main\<close> prints as JSON\<close>
  "main L W =
     (let now = now_main W;
          today = Time_Format L now ''2006-01-02'';
          briefing = newBriefing (Time_Format L now RFC3339) today;
          briefing = getHealthData L (health_ingest W) briefing today;
          briefing = getHealthDataFromSQLite (health_db W) briefing today;
          briefing = getCalendarData L (gog W) briefing today;
          briefing = getMedsData L (td_today W) briefing today;
          briefing = getTrainingData L (now_training W) (hevy W) briefing today;
          briefing = classify L briefing
      in briefing)"

section \<open>The rules as the specification words them\<close>

text \<open>
  The specification gives the sleep rule as a table of total hours followed by a downgrade
  by one step, and the recommendation as an ordered list of rules of which the first
  match wins. These definitions follow its words; the theorems below compare them with
  \<^const>\<open>classify\<close>.
\<close>

definition spec_baseQuality :: "real \<Rightarrow> string" where
  "spec_baseQuality h =
     (if h \<ge> 7 then ''GOOD'' else if 5 \<le> h \<and> h < 7 then ''OK'' else ''POOR'')"

definition spec_downgrade :: "string \<Rightarrow> string" where
  "spec_downgrade q = (if q = ''GOOD'' then ''OK'' else if q = ''OK'' then ''POOR'' else q)"

type_synonym situation = "string \<times> string \<times> string \<times> real option"
  \<comment> \<open>sleep quality, morning load, recovery status, HRV\<close>

definition spec_rules :: "'t golib \<Rightarrow> ((situation \<Rightarrow> bool) \<times> (situation \<Rightarrow> string)) list" where
  "spec_rules L =
     [(\<lambda>(sleep, load, recovery, hrv). recovery = ''POOR'' \<and> hrv \<noteq> None \<and> sleep = ''POOR'',
       \<lambda>_. msgPoorSleepPoorRecovery),
      (\<lambda>(sleep, load, recovery, hrv). recovery = ''POOR'' \<and> hrv \<noteq> None,
       \<lambda>(sleep, load, recovery, hrv). msgLowHRV L (the hrv)),
      (\<lambda>(sleep, load, recovery, hrv). sleep = ''POOR'' \<and> load = ''PACKED'', \<lambda>_. msgRoughPacked),
      (\<lambda>(sleep, load, recovery, hrv). sleep = ''POOR'' \<and> load = ''LIGHT'', \<lambda>_. msgRoughLight),
      (\<lambda>(sleep, load, recovery, hrv). sleep = ''POOR'' \<and> load = ''CLEAR'', \<lambda>_. msgRoughClear),
      (\<lambda>(sleep, load, recovery, hrv). sleep = ''OK'' \<and> load = ''PACKED'', \<lambda>_. msgDecentBusy),
      (\<lambda>(sleep, load, recovery, hrv). sleep = ''GOOD'', \<lambda>_. msgWellRested)]"

fun first_match :: "(('a \<Rightarrow> bool) \<times> ('a \<Rightarrow> 'b)) list \<Rightarrow> 'b \<Rightarrow> 'a \<Rightarrow> 'b" where
  "first_match [] dflt s = dflt"
| "first_match ((p, m) # rules) dflt s = (if p s then m s else first_match rules dflt s)"

definition spec_recommendation :: "'t golib \<Rightarrow> situation \<Rightarrow> string" where
  "spec_recommendation L s = first_match (spec_rules L) msgUnavailable s"

text \<open>
  The three buckets of the medication list, as conditions on a task: completed; overdue,
  which asks for a due date strictly before the target date; and due today, which is
  every other uncompleted medication task, the ones without a due object included.
\<close>

definition spec_completed :: "TodoistTask \<Rightarrow> bool" where
  "spec_completed task = (isMed task \<and> IsCompleted task)"

definition spec_overdue :: "string \<Rightarrow> TodoistTask \<Rightarrow> bool" where
  "spec_overdue today task =
     (isMed task \<and> \<not> IsCompleted task
      \<and> (case Due task of None \<Rightarrow> False | Some due \<Rightarrow> TodoistDue.Date due < today))"

definition spec_dueToday :: "string \<Rightarrow> TodoistTask \<Rightarrow> bool" where
  "spec_dueToday today task =
     (isMed task \<and> \<not> IsCompleted task
      \<and> (case Due task of None \<Rightarrow> True | Some due \<Rightarrow> \<not> TodoistDue.Date due < today))"

text \<open>
  The warnings one source contributes: none when it answers, one per failed command, and
  one per statement when the statements sent to the database fail.
\<close>

definition healthWarnings :: "HealthSummary fetched \<Rightarrow> string list" where
  "healthWarnings answer =
     (case answer of
        ExecError err \<Rightarrow> [''health-ingest error: '' @ err]
      | UnmarshalError err \<Rightarrow> [''health JSON parse error: '' @ err]
      | Decoded _ \<Rightarrow> [])"

definition dbWarnings :: "sqlopen \<Rightarrow> string list" where
  "dbWarnings opened =
     (case opened of
        OpenError err \<Rightarrow> [''sqlite open error: '' @ err]
      | Opened (StatementsFail err) \<Rightarrow>
          [''HRV query error: '' @ err, ''sleep stages query error: '' @ err,
           ''respiratory rate query error: '' @ err]
      | Opened (Table _) \<Rightarrow> [])"

definition calendarWarnings :: "string \<Rightarrow> GogCalendarResponse fetched \<Rightarrow> string list" where
  "calendarWarnings source answer =
     (case answer of
        ExecError err \<Rightarrow> [''calendar error ('' @ source @ ''): '' @ err]
      | UnmarshalError err \<Rightarrow> [''calendar JSON parse error ('' @ source @ ''): '' @ err]
      | Decoded _ \<Rightarrow> [])"

definition medsWarnings :: "TodoistResponse fetched \<Rightarrow> string list" where
  "medsWarnings answer =
     (case answer of
        ExecError err \<Rightarrow> [''todoist error: '' @ err]
      | UnmarshalError err \<Rightarrow> [''todoist JSON parse error: '' @ err]
      | Decoded _ \<Rightarrow> [])"

definition trainingWarnings :: "HevyWorkout list fetched \<Rightarrow> string list" where
  "trainingWarnings answer =
     (case answer of
        ExecError err \<Rightarrow> [''hevy error: '' @ err]
      | UnmarshalError err \<Rightarrow> [''hevy JSON parse error: '' @ err]
      | Decoded _ \<Rightarrow> [])"

definition failed :: "'a fetched \<Rightarrow> bool" where
  "failed answer = (case answer of Decoded _ \<Rightarrow> False | _ \<Rightarrow> True)"

text \<open>The target date of a run and the empty report it starts from.\<close>

definition today_of :: "'t golib \<Rightarrow> 't world \<Rightarrow> string" where
  "today_of L W = Time_Format L (now_main W) ''2006-01-02''"

definition fresh :: "'t golib \<Rightarrow> 't world \<Rightarrow> MorningBriefing" where
  "fresh L W = newBriefing (Time_Format L (now_main W) RFC3339) (today_of L W)"

text \<open>
  What each of the two health providers reports for a field, and the precedence of the
  specification: the value of the metrics store when it has one, else the other value.
\<close>

definition summary_value :: "HealthSummary fetched \<Rightarrow> string \<Rightarrow> real option" where
  "summary_value answer key =
     (case answer of
        Decoded summary \<Rightarrow> map_option Value (LatestStats summary key)
      | _ \<Rightarrow> None)"

definition store_HRV :: "sqlopen \<Rightarrow> string \<Rightarrow> real option" where
  "store_HRV opened today =
     (case opened of OpenError _ \<Rightarrow> None | Opened db \<Rightarrow> fst (queryAverageHRV db today))"

definition store_stages :: "sqlopen \<Rightarrow> string \<Rightarrow> real option \<times> real option \<times> real option" where
  "store_stages opened today =
     (case opened of
        OpenError _ \<Rightarrow> (None, None, None)
      | Opened db \<Rightarrow> (case querySleepStages db today of (deep, rem, core, _) \<Rightarrow> (deep, rem, core)))"

definition store_RR :: "sqlopen \<Rightarrow> string \<Rightarrow> real option" where
  "store_RR opened today =
     (case opened of
        OpenError _ \<Rightarrow> None
      | Opened db \<Rightarrow> fst (queryLatestRespiratoryRate db today))"

definition spec_override :: "'a option \<Rightarrow> 'a option \<Rightarrow> 'a option" where
  "spec_override store other = (case store of Some v \<Rightarrow> Some v | None \<Rightarrow> other)"

section \<open>Parts of the report left as they were\<close>

text \<open>
  \<open>keeps sel b0 b\<close>: the part \<open>sel\<close> of the report \<open>b\<close> is what it was in \<open>b0\<close>. The
  rules proved for it below go through the \<open>let\<close>, \<open>case\<close> and \<open>if\<close> of a definition,
  so that each assignment of the source is looked at once.
\<close>

definition keeps :: "('s \<Rightarrow> 'a) \<Rightarrow> 's \<Rightarrow> 's \<Rightarrow> bool" where
  "keeps sel b0 b = (sel b = sel b0)"

section \<open>Sample inputs\<close>

text \<open>
  A small instance of the library: a clock that knows the few instants the samples use,
  counted in minutes from midnight of 2024-01-15.
\<close>

definition exLib :: "int golib" where
  "exLib =
     \<lparr>time_Parse = (\<lambda>layout v. map_of
          [(''2024-01-15T08:00:00+07:00'', 480),
           (''2024-01-15T13:30:00+07:00'', 810),
           (''2024-01-14T18:00:00+07:00'', -360),
           (''2024-01-15'', 0)] v),
      Time_Format = (\<lambda>t layout.
          if layout = ''15:04''
          then (if t = 480 then ''08:00'' else if t = 810 then ''13:30'' else ''18:00'')
          else if layout = ''2006-01-02''
          then (if t < -1440 then ''2024-01-13'' else if t < 0 then ''2024-01-14''
                else ''2024-01-15'')
          else ''2024-01-15T06:30:00+07:00''),
      Time_Hour = (\<lambda>t. (t mod 1440) div 60),
      Time_AddDate = (\<lambda>t years months days. t + 1440 * days),
      Time_After = (\<lambda>t u. u < t),
      Time_Sub_Hours = (\<lambda>t u. real_of_int (t - u) / 60),
      Time_zero = 0,
      Sprintf_f0 = (\<lambda>x. if x = 15 then ''15'' else ''18'')\<rparr>"

definition exBriefing :: "real option \<Rightarrow> real option \<Rightarrow> bool \<Rightarrow> real option \<Rightarrow> MorningBriefing" where
  \<comment> \<open>a report with the given total and deep sleep hours, current-day flag and HRV, as the
      repository's tests build them\<close>
  "exBriefing hours deep current hrv =
     (newBriefing '''' ''2024-01-15'')
       \<lparr>Sleep := \<lparr>TotalHours = hours, DeepHours = deep, REMHours = None, CoreHours = None,
                  DataDate = '''', IsCurrentDay = current, DataAvailable = True\<rparr>,
        Vitals := \<lparr>RestingHR = None, HRV = hrv, SpO2 = None, RespiratoryRate = None\<rparr>\<rparr>"

definition exTaskNoDue :: TodoistTask where
  "exTaskNoDue = \<lparr>Content = ''Creatine'', Labels = [medsLabel], IsCompleted = False, Due = None\<rparr>"

definition exTodoist :: TodoistResponse where
  "exTodoist =
     \<lparr>Results =
        [exTaskNoDue,
         \<lparr>Content = ''Take vitamin D'', Labels = [''daily'', medsLabel], IsCompleted = False,
          Due = Some \<lparr>TodoistDue.Date = ''2024-01-14'',
                      TodoistDue.DateTime = ''2024-01-14T18:00:00+07:00''\<rparr>\<rparr>,
         \<lparr>Content = ''HCG injection'', Labels = [shotLabel], IsCompleted = False,
          Due = Some \<lparr>TodoistDue.Date = ''2024-01-15'',
                      TodoistDue.DateTime = ''2024-01-15T08:00:00+07:00''\<rparr>\<rparr>,
         \<lparr>Content = ''Magnesium'', Labels = [medsLabel], IsCompleted = True,
          Due = Some \<lparr>TodoistDue.Date = ''2024-01-15'', TodoistDue.DateTime = ''''\<rparr>\<rparr>,
         \<lparr>Content = ''Buy groceries'', Labels = [''errands''], IsCompleted = False,
          Due = Some \<lparr>TodoistDue.Date = ''2024-01-14'', TodoistDue.DateTime = ''''\<rparr>\<rparr>]\<rparr>"

definition exSummary :: HealthSummary where
  "exSummary =
     \<lparr>LatestStats = map_of
        [(''sleep_total'',
          \<lparr>Value = 7.5, Unit = ''hr'', Timestamp = ''2024-01-15 00:00:00 +0700''\<rparr>),
         (''sleep_deep'',
          \<lparr>Value = 0.5, Unit = ''hr'', Timestamp = ''2024-01-15 00:00:00 +0700''\<rparr>),
         (''heart_rate_variability'',
          \<lparr>Value = 45, Unit = ''ms'', Timestamp = ''2024-01-15 05:00:00 +0700''\<rparr>),
         (''respiratory_rate'',
          \<lparr>Value = 14, Unit = ''count/min'', Timestamp = ''2024-01-15 05:00:00 +0700''\<rparr>)]\<rparr>"

definition exRows :: "metric_row list" where
  "exRows =
     [\<lparr>metric_name = ''heart_rate_variability'', timestamp = ''2024-01-15 01:00:00 +0700'',
       mvalue = Some 30\<rparr>,
      \<lparr>metric_name = ''heart_rate_variability'', timestamp = ''2024-01-15 02:00:00 +0700'',
       mvalue = Some 40\<rparr>,
      \<lparr>metric_name = ''heart_rate_variability'', timestamp = ''2024-01-14 02:00:00 +0700'',
       mvalue = Some 99\<rparr>,
      \<lparr>metric_name = ''sleep_deep'', timestamp = ''2024-01-15 00:00:00 +0700'',
       mvalue = Some 1.2\<rparr>,
      \<lparr>metric_name = ''active_energy'', timestamp = ''2024-01-15 10:00:00 +0700'',
       mvalue = Some 611\<rparr>]"

definition exWorkouts :: "HevyWorkout list" where
  "exWorkouts =
     [\<lparr>HevyWorkout.ID = ''w1'', HevyWorkout.Title = ''Push day'',
       StartTime = ''2024-01-14T18:00:00+07:00'', HevyWorkout.Duration = ''1h'',
       HevyWorkout.Exercises = [\<lparr>HevyExercise.Name = ''Bench press''\<rparr>]\<rparr>]"

definition exGog :: "string \<Rightarrow> GogCalendarResponse fetched" where
  "exGog account =
     (if account = ''jai@govindani.com''
      then Decoded \<lparr>Events = [\<lparr>Start = \<lparr>GogStart.DateTime = ''2024-01-15T08:00:00+07:00'',
                                         GogStart.Date = ''''\<rparr>,
                                GogCalendarEvent.Summary = ''Standup''\<rparr>]\<rparr>
      else Decoded \<lparr>Events = []\<rparr>)"

definition exGogWorkDown :: "string \<Rightarrow> GogCalendarResponse fetched" where
  \<comment> \<open>the query of the work account fails\<close>
  "exGogWorkDown account =
     (if account = ''jai.g@ewa-services.com'' then ExecError ''exit status 1''
      else exGog account)"

definition exGogDown :: "string \<Rightarrow> GogCalendarResponse fetched" where
  \<comment> \<open>the calendar command fails for every account\<close>
  "exGogDown account = ExecError ''exit status 1''"

definition exWorld :: "(string \<Rightarrow> GogCalendarResponse fetched) \<Rightarrow> int world" where
  \<comment> \<open>a run at 06:30 on 2024-01-15 in which every source but the calendar answers\<close>
  "exWorld calendar =
     \<lparr>now_main = 390, now_training = 390,
      health_ingest = Decoded exSummary,
      health_db = Opened (Table exRows),
      gog = calendar,
      td_today = Decoded exTodoist,
      hevy = Decoded exWorkouts\<rparr>"

definition exEveningRows :: "metric_row list" where
  \<comment> \<open>a day with active energy and protein logged and no dietary energy\<close>
  "exEveningRows =
     [\<lparr>metric_name = ''active_energy'', timestamp = ''2024-01-15 10:00:00 +0700'',
       mvalue = Some 400\<rparr>,
      \<lparr>metric_name = ''active_energy'', timestamp = ''2024-01-15 18:00:00 +0700'',
       mvalue = Some 211\<rparr>,
      \<lparr>metric_name = ''dietary_energy'', timestamp = ''2024-01-14 19:00:00 +0700'',
       mvalue = Some 1850\<rparr>,
      \<lparr>metric_name = ''protein'', timestamp = ''2024-01-15 12:00:00 +0700'',
       mvalue = Some 40\<rparr>]"

section \<open>Properties of the evening calculations\<close>

lemma go_int_nonneg: "0 \<le> x \<Longrightarrow> go_int x = \<lfloor>x\<rfloor>"
  by (simp add: go_int_def)

lemma go_int_neg: "x < 0 \<Longrightarrow> go_int x = \<lceil>x\<rceil>"
  by (simp add: go_int_def)

lemma CalculateEnergyBalance_status:
  "snd (CalculateEnergyBalance bmr a c) =
     (if fst (CalculateEnergyBalance bmr a c) < -50 then ''deficit''
      else if fst (CalculateEnergyBalance bmr a c) > 50 then ''surplus''
      else ''maintenance'')"
  by (simp add: CalculateEnergyBalance_def Let_def)

lemma CalculateEnergyBalance_rounds_when_nonneg:
  "0 \<le> c - (real_of_int bmr + a) + 0.5 \<Longrightarrow>
   fst (CalculateEnergyBalance bmr a c) = round_half_up (c - (real_of_int bmr + a))"
  by (simp add: CalculateEnergyBalance_def Let_def go_int_def round_half_up_def)

text \<open>
  C5. The balance is meant to be \<^verbatim>\<open>consumed - (bmr + active)\<close> rounded to the nearest
  whole kcal, halves up, negative balances included. At bmr = 1636, active = 611,
  consumed = 1850 the difference is exactly -397, which rounds to -397; the code adds 0.5
  and truncates towards zero, and returns -396. Every number involved is one that a
  \<^verbatim>\<open>float64\<close> holds exactly, so the program computes just this.
\<close>

theorem CalculateEnergyBalance_negative_balance:
  "CalculateEnergyBalance 1636 611 1850 = (-396, ''deficit'')
   \<and> round_half_up (1850 - (1636 + 611)) = -397"
  by (simp add: CalculateEnergyBalance_def Let_def go_int_def round_half_up_def)

subsection \<open>Rounding to \<^verbatim>\<open>float64\<close> at given values\<close>

lemma floor_log2_eq:
  assumes "2 powi k \<le> x" "x < 2 powi (k + 1)"
  shows "\<lfloor>log 2 x\<rfloor> = k"
proof -
  have "(0::real) < 2 powi k"
    by (rule zero_less_power_int) simp
  with assms(1) have pos: "0 < x" by linarith
  have a: "(2::real) powr real_of_int k = 2 powi k"
    by (rule powr_real_of_int') simp_all
  have b: "(2::real) powr real_of_int (k + 1) = 2 powi (k + 1)"
    by (rule powr_real_of_int') simp_all
  have "2 powr real_of_int k \<le> x \<and> x < 2 powr (real_of_int k + 1)"
    using assms a b by simp
  then show ?thesis
    using floor_log_eq_powr_iff [of x 2 k] pos by simp
qed

lemma ulp_exp_eq:
  assumes "2 powi k \<le> \<bar>x\<bar>" "\<bar>x\<bar> < 2 powi (k + 1)" "- 1022 \<le> k"
  shows "ulp_exp x = k - 52"
  using floor_log2_eq [OF assms(1,2)] assms(3) by (simp add: ulp_exp_def)

lemma round64_eq:
  assumes "2 powi k \<le> \<bar>x\<bar>" "\<bar>x\<bar> < 2 powi (k + 1)" "- 1022 \<le> k"
  shows "round64 x = real_of_int (round_half_even (x / 2 powi (k - 52))) * 2 powi (k - 52)"
proof -
  have "(0::real) < 2 powi k"
    by (rule zero_less_power_int) simp
  with assms(1) have "0 < \<bar>x\<bar>" by linarith
  then have "x \<noteq> 0" by simp
  then show ?thesis
    by (simp add: round64_def ulp_exp_eq [OF assms])
qed

lemma round64_095: "round64 0.95 = 4278419646001971 / 2 ^ 52"
proof -
  have "round64 0.95
      = real_of_int (round_half_even (0.95 / 2 powi (- 1 - 52))) * 2 powi (- 1 - 52)"
    by (rule round64_eq) (simp_all add: power_int_minus_divide)
  also have "\<dots> = 4278419646001971 / 2 ^ 52"
    by (simp add: power_int_minus_divide round_half_even_def Let_def)
  finally show ?thesis .
qed

lemma round64_095_fixed: "round64 (4278419646001971 / 2 ^ 52) = 4278419646001971 / 2 ^ 52"
proof -
  have "round64 (4278419646001971 / 2 ^ 52)
      = real_of_int (round_half_even (4278419646001971 / 2 ^ 52 / 2 powi (- 1 - 52)))
          * 2 powi (- 1 - 52)"
    by (rule round64_eq) (simp_all add: power_int_minus_divide)
  also have "\<dots> = 4278419646001971 / 2 ^ 52"
    by (simp add: power_int_minus_divide round_half_even_def Let_def)
  finally show ?thesis .
qed

lemma round64_1: "round64 1 = 1"
proof -
  have "round64 1 = real_of_int (round_half_even (1 / 2 powi (0 - 52))) * 2 powi (0 - 52)"
    by (rule round64_eq) simp_all
  also have "\<dots> = 1"
    by (simp add: power_int_minus_divide round_half_even_def Let_def)
  finally show ?thesis .
qed

lemma round64_152: "round64 152 = 152"
proof -
  have "round64 152 = real_of_int (round_half_even (152 / 2 powi (7 - 52))) * 2 powi (7 - 52)"
    by (rule round64_eq) (simp_all add: power_int_minus_divide)
  also have "\<dots> = 152"
    by (simp add: power_int_minus_divide round_half_even_def Let_def)
  finally show ?thesis .
qed

lemma round64_1444: "round64 144.4 = 5080623329627341 / 2 ^ 45"
proof -
  have "round64 144.4
      = real_of_int (round_half_even (144.4 / 2 powi (7 - 52))) * 2 powi (7 - 52)"
    by (rule round64_eq) (simp_all add: power_int_minus_divide)
  also have "\<dots> = 5080623329627341 / 2 ^ 45"
    by (simp add: power_int_minus_divide round_half_even_def Let_def)
  finally show ?thesis .
qed

lemma round64_threshold_152:
  "round64 (152 * (4278419646001971 / 2 ^ 52)) = 5080623329627341 / 2 ^ 45"
proof -
  have "round64 (152 * (4278419646001971 / 2 ^ 52))
      = real_of_int (round_half_even (152 * (4278419646001971 / 2 ^ 52) / 2 powi (7 - 52)))
          * 2 powi (7 - 52)"
    by (rule round64_eq) (simp_all add: power_int_minus_divide)
  also have "\<dots> = 5080623329627341 / 2 ^ 45"
    by (simp add: power_int_minus_divide round_half_even_def Let_def)
  finally show ?thesis .
qed

lemma round64_remaining_152:
  "round64 (152 - 5080623329627341 / 2 ^ 45) = 267401227875123 / 2 ^ 45"
proof -
  have "round64 (152 - 5080623329627341 / 2 ^ 45)
      = real_of_int (round_half_even ((152 - 5080623329627341 / 2 ^ 45) / 2 powi (2 - 52)))
          * 2 powi (2 - 52)"
    by (rule round64_eq) (simp_all add: power_int_minus_divide)
  also have "\<dots> = 267401227875123 / 2 ^ 45"
    by (simp add: power_int_minus_divide round_half_even_def Let_def)
  finally show ?thesis .
qed

text \<open>
  C6, as the code has it. For all consumed and target, the remaining protein is
  \<open>max 0\<close> of the \<^verbatim>\<open>float64\<close> difference \<open>target - consumed\<close>, hence never negative,
  and the on-track flag is true exactly when consumed is at least the \<^verbatim>\<open>float64\<close>
  product of target and the \<^verbatim>\<open>float64\<close> nearest to 0.95, which is
  \<open>4278419646001971 / 2\<^sup>5\<^sup>2\<close>, a little below 0.95. With consumed the \<^verbatim>\<open>float64\<close>
  144.4 and target 152 the flag is true and the remaining protein is within \<open>10\<^sup>-\<^sup>1\<^sup>4\<close> of
  7.6; with consumed 0 the remaining protein is 152 and the flag is false.
\<close>

theorem CalculateProteinStatus_float64:
  "CalculateProteinStatus consumed target
     = (max 0 (round64 (target - consumed)), consumed \<ge> round64 (target * round64 0.95))
   \<and> 0 \<le> fst (CalculateProteinStatus consumed target)
   \<and> round64 0.95 = 4278419646001971 / 2 ^ 52
   \<and> round64 144.4 = 5080623329627341 / 2 ^ 45
   \<and> CalculateProteinStatus (round64 144.4) 152 = (267401227875123 / 2 ^ 45, True)
   \<and> \<bar>267401227875123 / 2 ^ 45 - 7.6\<bar> < (1 / 10 ^ 14 :: real)
   \<and> CalculateProteinStatus 0 152 = (152, False)"
proof -
  have general: "CalculateProteinStatus consumed target
     = (max 0 (round64 (target - consumed)), consumed \<ge> round64 (target * round64 0.95))"
    by (simp add: CalculateProteinStatus_def Let_def max_def)
  have nonneg: "0 \<le> fst (CalculateProteinStatus consumed target)"
    by (simp add: CalculateProteinStatus_def Let_def)
  have close: "CalculateProteinStatus (round64 144.4) 152 = (267401227875123 / 2 ^ 45, True)"
    unfolding CalculateProteinStatus_def Let_def round64_1444 round64_095
      round64_threshold_152 round64_remaining_152
    by simp
  have zero: "CalculateProteinStatus 0 152 = (152, False)"
    unfolding CalculateProteinStatus_def Let_def round64_095 round64_threshold_152
      diff_zero round64_152
    by simp
  have near: "\<bar>267401227875123 / 2 ^ 45 - 7.6\<bar> < (1 / 10 ^ 14 :: real)"
    by simp
  from general nonneg round64_095 round64_1444 close near zero show ?thesis
    by (intro conjI)
qed

text \<open>
  The \<^verbatim>\<open>float64\<close> nearest to 0.95 is below 0.95. With that value consumed and a target
  of 1, both of them \<^verbatim>\<open>float64\<close> values, the threshold the code computes is the
  consumed value itself and the flag is true, while consumed is less than 0.95 times the
  target.
\<close>

theorem CalculateProteinStatus_exact_counterexample:
  "round64 (4278419646001971 / 2 ^ 52) = 4278419646001971 / 2 ^ 52
   \<and> round64 1 = 1
   \<and> snd (CalculateProteinStatus (4278419646001971 / 2 ^ 52) 1)
   \<and> \<not> (4278419646001971 / 2 ^ 52 \<ge> 0.95 * (1::real))"
proof -
  have "snd (CalculateProteinStatus (4278419646001971 / 2 ^ 52) 1)"
    unfolding CalculateProteinStatus_def Let_def round64_095 mult_1 round64_095_fixed
    by simp
  moreover have "\<not> (4278419646001971 / 2 ^ 52 \<ge> 0.95 * (1::real))"
    by simp
  ultimately show ?thesis
    using round64_095_fixed round64_1 by (intro conjI)
qed

text \<open>
  C7. For the four pairs of flags: ParseMode returns an error exactly when both flags are
  true, and then the mode is empty; it returns "evening" when only the evening flag is
  true, and "morning" when only the morning flag is true and when neither is.
\<close>

theorem ParseMode_spec:
  "(snd (ParseMode morning evening) \<noteq> None) = (morning \<and> evening)
   \<and> fst (ParseMode True True) = ''''
   \<and> ParseMode False True = (''evening'', None)
   \<and> ParseMode True False = (''morning'', None)
   \<and> ParseMode False False = (''morning'', None)"
  by (simp add: ParseMode_def)

section \<open>Properties of the morning classification\<close>

lemma classifySleep_fields:
  "Sleep (classifySleep b) = Sleep b"
  "Vitals (classifySleep b) = Vitals b"
  "Calendar (classifySleep b) = Calendar b"
  "Meds (classifySleep b) = Meds b"
  "Training (classifySleep b) = Training b"
  "Errors (classifySleep b) = Errors b"
  by (simp_all add: classifySleep_def Let_def split: option.splits)

lemma classifyRecovery_fields:
  "Sleep (classifyRecovery b) = Sleep b"
  "Vitals (classifyRecovery b) = Vitals b"
  "Calendar (classifyRecovery b) = Calendar b"
  "Meds (classifyRecovery b) = Meds b"
  "Training (classifyRecovery b) = Training b"
  "Errors (classifyRecovery b) = Errors b"
  "SleepQuality (Classification (classifyRecovery b)) = SleepQuality (Classification b)"
  by (simp_all add: classifyRecovery_def split: option.splits)

lemma classifyLoad_fields:
  "Sleep (classifyLoad b) = Sleep b"
  "Vitals (classifyLoad b) = Vitals b"
  "Calendar (classifyLoad b) = Calendar b"
  "Meds (classifyLoad b) = Meds b"
  "Training (classifyLoad b) = Training b"
  "Errors (classifyLoad b) = Errors b"
  "SleepQuality (Classification (classifyLoad b)) = SleepQuality (Classification b)"
  "RecoveryStatus (Classification (classifyLoad b)) = RecoveryStatus (Classification b)"
  by (simp_all add: classifyLoad_def Let_def)

lemma recommend_fields:
  "Sleep (recommend L b) = Sleep b"
  "Vitals (recommend L b) = Vitals b"
  "Calendar (recommend L b) = Calendar b"
  "Meds (recommend L b) = Meds b"
  "Training (recommend L b) = Training b"
  "Errors (recommend L b) = Errors b"
  "SleepQuality (Classification (recommend L b)) = SleepQuality (Classification b)"
  "RecoveryStatus (Classification (recommend L b)) = RecoveryStatus (Classification b)"
  "MorningLoad (Classification (recommend L b)) = MorningLoad (Classification b)"
  by (simp_all add: recommend_def Let_def)

lemmas classify_stage_fields =
  classifySleep_fields classifyRecovery_fields classifyLoad_fields recommend_fields

lemma classify_fields:
  "Sleep (classify L b) = Sleep b"
  "Vitals (classify L b) = Vitals b"
  "Calendar (classify L b) = Calendar b"
  "Meds (classify L b) = Meds b"
  "Training (classify L b) = Training b"
  "Errors (classify L b) = Errors b"
  by (simp_all add: classify_def classify_stage_fields)

lemma classify_SleepQuality:
  "SleepQuality (Classification (classify L b)) = SleepQuality (Classification (classifySleep b))"
  by (simp add: classify_def classify_stage_fields)

lemma classify_RecoveryStatus:
  "RecoveryStatus (Classification (classify L b))
     = RecoveryStatus (Classification (classifyRecovery (classifySleep b)))"
  by (simp add: classify_def classify_stage_fields)

text \<open>
  C1. If sleep data is unavailable or not of the current day, the sleep quality is UNKNOWN.
  Otherwise, when the total hours \<open>h\<close> are present, the quality is the base quality of
  \<open>h\<close> (GOOD from 7, OK from 5 to below 7, POOR below 5), downgraded by one step when the
  deep-sleep hours are present and below 1.0, and unchanged when they are absent or at
  least 1.0.
\<close>

theorem classify_sleep_quality:
  "(\<not> DataAvailable (Sleep b) \<or> \<not> IsCurrentDay (Sleep b)
      \<longrightarrow> SleepQuality (Classification (classify L b)) = ''UNKNOWN'')
   \<and> (DataAvailable (Sleep b) \<and> IsCurrentDay (Sleep b) \<and> TotalHours (Sleep b) = Some h
      \<longrightarrow> SleepQuality (Classification (classify L b))
           = (case DeepHours (Sleep b) of
                None \<Rightarrow> spec_baseQuality h
              | Some deep \<Rightarrow> if deep < 1.0 then spec_downgrade (spec_baseQuality h)
                             else spec_baseQuality h))"
  by (simp add: classify_SleepQuality classifySleep_def spec_baseQuality_def spec_downgrade_def
        Let_def split: option.splits)

theorem classify_sleep_quality_witness:
  "\<not> IsCurrentDay (Sleep (exBriefing (Some 7) None False None))
   \<and> SleepQuality (Classification (classify exLib (exBriefing (Some 7) None False None)))
       = ''UNKNOWN''
   \<and> DataAvailable (Sleep (exBriefing (Some 7.5) (Some 0.5) True None))
   \<and> IsCurrentDay (Sleep (exBriefing (Some 7.5) (Some 0.5) True None))
   \<and> TotalHours (Sleep (exBriefing (Some 7.5) (Some 0.5) True None)) = Some 7.5
   \<and> SleepQuality (Classification (classify exLib (exBriefing (Some 7.5) (Some 0.5) True None)))
       = ''OK''
   \<and> SleepQuality (Classification (classify exLib (exBriefing (Some 6) (Some 0.5) True None)))
       = ''POOR''
   \<and> SleepQuality (Classification (classify exLib (exBriefing (Some 4) (Some 0.5) True None)))
       = ''POOR''
   \<and> SleepQuality (Classification (classify exLib (exBriefing (Some 7.5) None True None)))
       = ''GOOD''"
  using classify_sleep_quality [where b = "exBriefing (Some 7) None False None" and L = exLib and h = "7"]
    classify_sleep_quality [where b = "exBriefing (Some 7.5) (Some 0.5) True None" and L = exLib and h = "7.5"]
    classify_sleep_quality [where b = "exBriefing (Some 6) (Some 0.5) True None" and L = exLib and h = "6"]
    classify_sleep_quality [where b = "exBriefing (Some 4) (Some 0.5) True None" and L = exLib and h = "4"]
    classify_sleep_quality [where b = "exBriefing (Some 7.5) None True None" and L = exLib and h = "7.5"]
  by (simp add: exBriefing_def newBriefing_def spec_baseQuality_def spec_downgrade_def)

text \<open>
  C3. If HRV is absent, the recovery status is UNKNOWN. Otherwise it is POOR for HRV up to
  20, OK for HRV above 20 and below 40, and GOOD for HRV from 40; so HRV 20 gives POOR and
  HRV 40 gives GOOD.
\<close>

theorem classify_recovery_status:
  "(HRV (Vitals b) = None \<longrightarrow> RecoveryStatus (Classification (classify L b)) = ''UNKNOWN'')
   \<and> (HRV (Vitals b) = Some v \<longrightarrow>
        (v \<le> 20 \<longrightarrow> RecoveryStatus (Classification (classify L b)) = ''POOR'')
      \<and> (20 < v \<and> v < 40 \<longrightarrow> RecoveryStatus (Classification (classify L b)) = ''OK'')
      \<and> (v \<ge> 40 \<longrightarrow> RecoveryStatus (Classification (classify L b)) = ''GOOD''))
   \<and> (HRV (Vitals b) = Some 20 \<longrightarrow> RecoveryStatus (Classification (classify L b)) = ''POOR'')
   \<and> (HRV (Vitals b) = Some 40 \<longrightarrow> RecoveryStatus (Classification (classify L b)) = ''GOOD'')"
  by (simp add: classify_RecoveryStatus classifyRecovery_def classify_stage_fields)

theorem classify_recovery_status_witness:
  "HRV (Vitals (exBriefing None None False None)) = None
   \<and> RecoveryStatus (Classification (classify exLib (exBriefing None None False None)))
       = ''UNKNOWN''
   \<and> HRV (Vitals (exBriefing None None False (Some 20))) = Some 20
   \<and> RecoveryStatus (Classification (classify exLib (exBriefing None None False (Some 20))))
       = ''POOR''
   \<and> RecoveryStatus (Classification (classify exLib (exBriefing None None False (Some 35))))
       = ''OK''
   \<and> RecoveryStatus (Classification (classify exLib (exBriefing None None False (Some 40))))
       = ''GOOD''"
  using classify_recovery_status [where b = "exBriefing None None False None" and L = exLib and v = "0"]
    classify_recovery_status [where b = "exBriefing None None False (Some 20)" and L = exLib and v = "20"]
    classify_recovery_status [where b = "exBriefing None None False (Some 35)" and L = exLib and v = "35"]
    classify_recovery_status [where b = "exBriefing None None False (Some 40)" and L = exLib and v = "40"]
  by (simp add: exBriefing_def newBriefing_def)

lemma recommend_Recommendation:
  "Recommendation (Classification (recommend L b))
     = spec_recommendation L (SleepQuality (Classification b), MorningLoad (Classification b),
         RecoveryStatus (Classification b), HRV (Vitals b))"
  by (auto simp: recommend_def spec_recommendation_def spec_rules_def Let_def)

lemma rough_messages_differ:
  "msgPoorSleepPoorRecovery \<noteq> msgRoughPacked"
  "msgPoorSleepPoorRecovery \<noteq> msgRoughLight"
  "msgPoorSleepPoorRecovery \<noteq> msgRoughClear"
  by (simp_all add: msgPoorSleepPoorRecovery_def msgRoughPacked_def msgRoughLight_def
        msgRoughClear_def)

text \<open>
  C2. The recommendation is the message of the first rule that matches, in the order:
  recovery POOR with HRV present (the combined message when sleep is POOR, else the message
  naming the HRV value); sleep POOR with load PACKED; sleep POOR with load LIGHT; sleep
  POOR with load CLEAR; sleep OK with load PACKED; sleep GOOD; otherwise the
  data-unavailable default. With HRV 15 and sleep POOR it is the combined message and
  none of the rough-night messages.
\<close>

theorem classify_recommendation:
  "Recommendation (Classification (classify L b))
     = spec_recommendation L
         (SleepQuality (Classification (classify L b)),
          MorningLoad (Classification (classify L b)),
          RecoveryStatus (Classification (classify L b)),
          HRV (Vitals b))
   \<and> (HRV (Vitals b) = Some 15 \<and> SleepQuality (Classification (classify L b)) = ''POOR''
        \<longrightarrow> Recommendation (Classification (classify L b)) = msgPoorSleepPoorRecovery
          \<and> Recommendation (Classification (classify L b))
              \<notin> {msgRoughPacked, msgRoughLight, msgRoughClear})"
proof -
  let ?c = "Classification (classify L b)"
  have eq: "Recommendation ?c
     = spec_recommendation L (SleepQuality ?c, MorningLoad ?c, RecoveryStatus ?c, HRV (Vitals b))"
    unfolding classify_def
    by (simp add: recommend_Recommendation classify_stage_fields)
  have poor: "RecoveryStatus ?c = ''POOR''" if "HRV (Vitals b) = Some 15"
    using that by (simp add: classify_RecoveryStatus classifyRecovery_def classify_stage_fields)
  have "Recommendation ?c = msgPoorSleepPoorRecovery"
    if "HRV (Vitals b) = Some 15" "SleepQuality ?c = ''POOR''"
    using that poor[OF that(1)] unfolding eq
    by (simp add: spec_recommendation_def spec_rules_def)
  then show ?thesis
    using eq rough_messages_differ by auto
qed

theorem classify_recommendation_witness:
  "HRV (Vitals (exBriefing (Some 4) (Some 0.5) True (Some 15))) = Some 15
   \<and> SleepQuality (Classification (classify exLib (exBriefing (Some 4) (Some 0.5) True (Some 15))))
       = ''POOR''
   \<and> Recommendation (Classification (classify exLib (exBriefing (Some 4) (Some 0.5) True (Some 15))))
       = msgPoorSleepPoorRecovery
   \<and> Recommendation (Classification (classify exLib (exBriefing (Some 8) (Some 1.5) True (Some 18))))
       = ''HRV is low (18ms) indicating poor recovery. Consider lighter activity today.''"
  using classify_recommendation [where L = exLib and b = "exBriefing (Some 4) (Some 0.5) True (Some 15)"]
    classify_recommendation [where L = exLib and b = "exBriefing (Some 8) (Some 1.5) True (Some 18)"]
  by (simp add: exBriefing_def newBriefing_def classify_def recommend_def classifyLoad_def
        classifyRecovery_def classifySleep_def Let_def exLib_def msgLowHRV_def
        spec_recommendation_def spec_rules_def)

section \<open>Properties of the medication buckets\<close>

lemma medTask_Meds:
  "medTask L today task b =
     b\<lparr>Meds := \<lparr>DueToday = DueToday (Meds b) @ map (medOf L) (filter (spec_dueToday today) [task]),
                 Overdue = Overdue (Meds b) @ map (medOf L) (filter (spec_overdue today) [task]),
                 Completed = Completed (Meds b) @ map (medOf L) (filter spec_completed [task])\<rparr>\<rparr>"
  by (cases "Due task")
     (simp_all add: medTask_def spec_dueToday_def spec_overdue_def spec_completed_def Let_def)

lemma fold_medTask:
  "fold (medTask L today) tasks b =
     b\<lparr>Meds := \<lparr>DueToday = DueToday (Meds b) @ map (medOf L) (filter (spec_dueToday today) tasks),
                 Overdue = Overdue (Meds b) @ map (medOf L) (filter (spec_overdue today) tasks),
                 Completed = Completed (Meds b) @ map (medOf L) (filter spec_completed tasks)\<rparr>\<rparr>"
proof (induction tasks arbitrary: b)
  case Nil
  show ?case by simp
next
  case (Cons task tasks)
  show ?case
    by (simp add: Cons.IH) (simp add: medTask_Meds)
qed

text \<open>
  C10. Over a parsed task list, \<^const>\<open>getMedsData\<close> appends to the overdue bucket exactly
  the uncompleted medication tasks whose due date is strictly before the target date, and
  to the due-today bucket every other uncompleted medication task, both in the order of
  the list. An uncompleted medication task with no due object is therefore placed in due
  today, not in overdue, and its entry has an empty due date.
\<close>

theorem getMedsData_buckets:
  "Overdue (Meds (getMedsData L (Decoded resp) b today))
     = Overdue (Meds b) @ map (medOf L) (filter (spec_overdue today) (Results resp))
   \<and> DueToday (Meds (getMedsData L (Decoded resp) b today))
     = DueToday (Meds b) @ map (medOf L) (filter (spec_dueToday today) (Results resp))
   \<and> (isMed task \<and> \<not> IsCompleted task \<and> Due task = None
        \<longrightarrow> spec_dueToday today task \<and> \<not> spec_overdue today task
            \<and> DueDate (medOf L task) = '''')
   \<and> (spec_overdue today task
        = (isMed task \<and> \<not> IsCompleted task
           \<and> (\<exists>due. Due task = Some due \<and> TodoistDue.Date due < today)))"
  by (auto simp: getMedsData_def fold_medTask spec_dueToday_def spec_overdue_def medOf_def
        split: option.splits)

theorem getMedsData_buckets_witness:
  "isMed exTaskNoDue \<and> \<not> IsCompleted exTaskNoDue \<and> Due exTaskNoDue = None
   \<and> DueToday (Meds (getMedsData exLib (Decoded exTodoist) (newBriefing '''' ''2024-01-15'')
        ''2024-01-15''))
     = [\<lparr>MedTask.Name = ''Creatine'', DueTime = '''', DueDate = ''''\<rparr>,
        \<lparr>MedTask.Name = ''HCG injection'', DueTime = ''08:00'', DueDate = ''2024-01-15''\<rparr>]
   \<and> Overdue (Meds (getMedsData exLib (Decoded exTodoist) (newBriefing '''' ''2024-01-15'')
        ''2024-01-15''))
     = [\<lparr>MedTask.Name = ''Take vitamin D'', DueTime = ''18:00'', DueDate = ''2024-01-14''\<rparr>]"
  using getMedsData_buckets [where L = exLib and resp = exTodoist and today = "''2024-01-15''"
      and b = "newBriefing '''' ''2024-01-15''" and task = exTaskNoDue]
  by (simp add: exTodoist_def exTaskNoDue_def newBriefing_def spec_dueToday_def
        spec_overdue_def isMed_def medOf_def medsLabel_def shotLabel_def exLib_def RFC3339_def
        Let_def)

section \<open>What each fetching step writes\<close>

lemma keeps_refl: "keeps sel b0 b0"
  by (simp add: keeps_def)

lemma keeps_Let:
  "keeps sel b0 x \<Longrightarrow> (\<And>y. keeps sel b0 y \<Longrightarrow> keeps sel b0 (g y)) \<Longrightarrow> keeps sel b0 (Let x g)"
  by (simp add: Let_def)

lemma keeps_case_option:
  "keeps sel b0 n \<Longrightarrow> (\<And>v. keeps sel b0 (s v)) \<Longrightarrow>
   keeps sel b0 (case x of None \<Rightarrow> n | Some v \<Rightarrow> s v)"
  by (cases x) simp_all

lemma keeps_case_prod:
  "(\<And>x y. keeps sel b0 (f x y)) \<Longrightarrow> keeps sel b0 (case p of (x, y) \<Rightarrow> f x y)"
  by (cases p) simp

lemma keeps_case_list:
  "keeps sel b0 n \<Longrightarrow> (\<And>x xs. keeps sel b0 (c x xs)) \<Longrightarrow>
   keeps sel b0 (case l of [] \<Rightarrow> n | x # xs \<Rightarrow> c x xs)"
  by (cases l) simp_all

lemma keeps_if:
  "keeps sel b0 x \<Longrightarrow> keeps sel b0 y \<Longrightarrow> keeps sel b0 (if c then x else y)"
  by simp

lemmas keeps_intros =
  keeps_Let keeps_case_option keeps_case_prod keeps_case_list keeps_if

lemma keeps_fold:
  assumes "\<And>x b. keeps sel b (f x b)"
  shows "keeps sel b (fold f xs b)"
proof (induction xs arbitrary: b)
  case Nil
  show ?case by (simp add: keeps_def)
next
  case (Cons x xs)
  have "sel (fold f xs (f x b)) = sel (f x b)"
    using Cons.IH [of "f x b"] by (simp add: keeps_def)
  moreover have "sel (f x b) = sel b"
    using assms by (simp add: keeps_def)
  ultimately show ?case by (simp add: keeps_def)
qed

lemma addError_fields:
  "Sleep (addError m b) = Sleep b"
  "Vitals (addError m b) = Vitals b"
  "Calendar (addError m b) = Calendar b"
  "Meds (addError m b) = Meds b"
  "Training (addError m b) = Training b"
  "Errors (addError m b) = Errors b @ [m]"
  by (simp_all add: addError_def)

subsection \<open>The summary provider\<close>

lemma getHealthData_Decoded_keeps:
  "keeps (\<lambda>b. (Calendar b, Meds b, Training b, Errors b,
                RespiratoryRate (Vitals b), CoreHours (Sleep b)))
     b (getHealthData L (Decoded summary) b today)"
  unfolding getHealthData_def fetched.case
  by (intro keeps_intros) (simp_all add: keeps_def)

lemma getHealthData_fields:
  "Calendar (getHealthData L a b today) = Calendar b"
  "Meds (getHealthData L a b today) = Meds b"
  "Training (getHealthData L a b today) = Training b"
  "Errors (getHealthData L a b today) = Errors b @ healthWarnings a"
  "RespiratoryRate (Vitals (getHealthData L a b today)) = RespiratoryRate (Vitals b)"
  "CoreHours (Sleep (getHealthData L a b today)) = CoreHours (Sleep b)"
proof -
  show "Calendar (getHealthData L a b today) = Calendar b"
    using getHealthData_Decoded_keeps [of b L _ today]
    by (cases a) (simp_all add: getHealthData_def addError_fields keeps_def)
  show "Meds (getHealthData L a b today) = Meds b"
    using getHealthData_Decoded_keeps [of b L _ today]
    by (cases a) (simp_all add: getHealthData_def addError_fields keeps_def)
  show "Training (getHealthData L a b today) = Training b"
    using getHealthData_Decoded_keeps [of b L _ today]
    by (cases a) (simp_all add: getHealthData_def addError_fields keeps_def)
  show "Errors (getHealthData L a b today) = Errors b @ healthWarnings a"
    using getHealthData_Decoded_keeps [of b L _ today]
    by (cases a) (simp_all add: getHealthData_def addError_fields keeps_def healthWarnings_def)
  show "RespiratoryRate (Vitals (getHealthData L a b today)) = RespiratoryRate (Vitals b)"
    using getHealthData_Decoded_keeps [of b L _ today]
    by (cases a) (simp_all add: getHealthData_def addError_fields keeps_def)
  show "CoreHours (Sleep (getHealthData L a b today)) = CoreHours (Sleep b)"
    using getHealthData_Decoded_keeps [of b L _ today]
    by (cases a) (simp_all add: getHealthData_def addError_fields keeps_def)
qed


lemma getHealthData_values:
  "HRV (Vitals (getHealthData L a b today))
     = spec_override (summary_value a ''heart_rate_variability'') (HRV (Vitals b))"
  "DeepHours (Sleep (getHealthData L a b today))
     = spec_override (summary_value a ''sleep_deep'') (DeepHours (Sleep b))"
  "REMHours (Sleep (getHealthData L a b today))
     = spec_override (summary_value a ''sleep_rem'') (REMHours (Sleep b))"
  by (simp_all add: getHealthData_def Let_def spec_override_def summary_value_def
        addError_fields split: fetched.splits option.splits)

subsection \<open>The metrics store\<close>

lemma getHealthDataFromSQLite_keeps:
  "keeps (\<lambda>b. (Calendar b, Meds b, Training b)) b (getHealthDataFromSQLite opened b today)"
proof (cases opened)
  case (OpenError e)
  then show ?thesis
    by (simp add: getHealthDataFromSQLite_def keeps_def addError_fields)
next
  case (Opened db)
  show ?thesis
    unfolding Opened getHealthDataFromSQLite_def sqlopen.case
    by (intro keeps_intros) (simp_all add: keeps_def addError_fields)
qed

lemma getHealthDataFromSQLite_fields:
  "Calendar (getHealthDataFromSQLite opened b today) = Calendar b"
  "Meds (getHealthDataFromSQLite opened b today) = Meds b"
  "Training (getHealthDataFromSQLite opened b today) = Training b"
  using getHealthDataFromSQLite_keeps [of b opened today] by (simp_all add: keeps_def)

lemma queries_of_Table:
  "\<exists>v. queryAverageHRV (Table rows) today = (v, None)"
  "\<exists>d r c. querySleepStages (Table rows) today = (d, r, c, None)"
  "\<exists>v. queryLatestRespiratoryRate (Table rows) today = (v, None)"
  by (simp_all add: queryAverageHRV_def querySleepStages_def queryLatestRespiratoryRate_def
        Let_def split: option.splits prod.splits)

lemma queries_of_StatementsFail:
  "queryAverageHRV (StatementsFail e) today = (None, Some e)"
  "querySleepStages (StatementsFail e) today = (None, None, None, Some e)"
  "queryLatestRespiratoryRate (StatementsFail e) today = (None, Some e)"
  by (simp_all add: queryAverageHRV_def querySleepStages_def queryLatestRespiratoryRate_def)

lemma getHealthDataFromSQLite_Table:
  assumes "queryAverageHRV (Table rows) today = (hrv, None)"
    and "querySleepStages (Table rows) today = (deep, rem, core, None)"
    and "queryLatestRespiratoryRate (Table rows) today = (rr, None)"
  shows "getHealthDataFromSQLite (Opened (Table rows)) b today =
     b\<lparr>Vitals := (Vitals b)\<lparr>HRV := spec_override hrv (HRV (Vitals b)),
                             RespiratoryRate := spec_override rr (RespiratoryRate (Vitals b))\<rparr>,
       Sleep := (Sleep b)\<lparr>DeepHours := spec_override deep (DeepHours (Sleep b)),
                           REMHours := spec_override rem (REMHours (Sleep b)),
                           CoreHours := spec_override core (CoreHours (Sleep b))\<rparr>\<rparr>"
  by (cases hrv; cases deep; cases rem; cases core; cases rr)
     (simp_all add: getHealthDataFromSQLite_def assms Let_def spec_override_def)

lemma getHealthDataFromSQLite_values:
  "HRV (Vitals (getHealthDataFromSQLite opened b today))
     = spec_override (store_HRV opened today) (HRV (Vitals b))"
  "DeepHours (Sleep (getHealthDataFromSQLite opened b today))
     = spec_override (fst (store_stages opened today)) (DeepHours (Sleep b))"
  "REMHours (Sleep (getHealthDataFromSQLite opened b today))
     = spec_override (fst (snd (store_stages opened today))) (REMHours (Sleep b))"
  "CoreHours (Sleep (getHealthDataFromSQLite opened b today))
     = spec_override (snd (snd (store_stages opened today))) (CoreHours (Sleep b))"
  "RespiratoryRate (Vitals (getHealthDataFromSQLite opened b today))
     = spec_override (store_RR opened today) (RespiratoryRate (Vitals b))"
  "Errors (getHealthDataFromSQLite opened b today) = Errors b @ dbWarnings opened"
proof -
  have "HRV (Vitals (getHealthDataFromSQLite opened b today))
          = spec_override (store_HRV opened today) (HRV (Vitals b))
      \<and> DeepHours (Sleep (getHealthDataFromSQLite opened b today))
          = spec_override (fst (store_stages opened today)) (DeepHours (Sleep b))
      \<and> REMHours (Sleep (getHealthDataFromSQLite opened b today))
          = spec_override (fst (snd (store_stages opened today))) (REMHours (Sleep b))
      \<and> CoreHours (Sleep (getHealthDataFromSQLite opened b today))
          = spec_override (snd (snd (store_stages opened today))) (CoreHours (Sleep b))
      \<and> RespiratoryRate (Vitals (getHealthDataFromSQLite opened b today))
          = spec_override (store_RR opened today) (RespiratoryRate (Vitals b))
      \<and> Errors (getHealthDataFromSQLite opened b today) = Errors b @ dbWarnings opened"
  proof (cases opened)
    case (OpenError e)
    then show ?thesis
      by (simp add: getHealthDataFromSQLite_def addError_fields store_HRV_def store_stages_def
            store_RR_def spec_override_def dbWarnings_def)
  next
    case (Opened db)
    show ?thesis
    proof (cases db)
      case (StatementsFail e)
      with Opened show ?thesis
        by (simp add: getHealthDataFromSQLite_def queries_of_StatementsFail addError_fields
              store_HRV_def store_stages_def store_RR_def spec_override_def dbWarnings_def)
    next
      case (Table rows)
      obtain hrv where h: "queryAverageHRV (Table rows) today = (hrv, None)"
        using queries_of_Table(1) by blast
      obtain deep rem core where s: "querySleepStages (Table rows) today = (deep, rem, core, None)"
        using queries_of_Table(2) by blast
      obtain rr where r: "queryLatestRespiratoryRate (Table rows) today = (rr, None)"
        using queries_of_Table(3) by blast
      show ?thesis
        unfolding Opened Table getHealthDataFromSQLite_Table [OF h s r]
        by (simp add: store_HRV_def store_stages_def store_RR_def h s r dbWarnings_def)
    qed
  qed
  then show
    "HRV (Vitals (getHealthDataFromSQLite opened b today))
       = spec_override (store_HRV opened today) (HRV (Vitals b))"
    "DeepHours (Sleep (getHealthDataFromSQLite opened b today))
       = spec_override (fst (store_stages opened today)) (DeepHours (Sleep b))"
    "REMHours (Sleep (getHealthDataFromSQLite opened b today))
       = spec_override (fst (snd (store_stages opened today))) (REMHours (Sleep b))"
    "CoreHours (Sleep (getHealthDataFromSQLite opened b today))
       = spec_override (snd (snd (store_stages opened today))) (CoreHours (Sleep b))"
    "RespiratoryRate (Vitals (getHealthDataFromSQLite opened b today))
       = spec_override (store_RR opened today) (RespiratoryRate (Vitals b))"
    "Errors (getHealthDataFromSQLite opened b today) = Errors b @ dbWarnings opened"
    by simp_all
qed

subsection \<open>The calendar\<close>

lemma calendarEvent_keeps:
  "keeps (\<lambda>b. (Sleep b, Vitals b, Meds b, Training b, Errors b)) b
     (calendarEvent L today source e b)"
  by (simp add: calendarEvent_def keeps_def Let_def split: option.splits)

lemma calendarEvent_local:
  "Calendar b = Calendar b' \<Longrightarrow>
   Calendar (calendarEvent L today source e b) = Calendar (calendarEvent L today source e b')"
  by (simp add: calendarEvent_def Let_def split: option.splits)

lemma fold_calendarEvent_local:
  "Calendar b = Calendar b' \<Longrightarrow>
   Calendar (fold (calendarEvent L today source) es b)
     = Calendar (fold (calendarEvent L today source) es b')"
proof (induction es arbitrary: b b')
  case Nil
  then show ?case by simp
next
  case (Cons e es)
  from Cons.prems have
    "Calendar (calendarEvent L today source e b) = Calendar (calendarEvent L today source e b')"
    by (rule calendarEvent_local)
  from Cons.IH [OF this] show ?case
    by simp
qed

lemma fold_calendarEvent_keeps:
  "keeps (\<lambda>b. (Sleep b, Vitals b, Meds b, Training b, Errors b)) b
     (fold (calendarEvent L today source) es b)"
  by (rule keeps_fold) (rule calendarEvent_keeps)

lemma fold_calendarEvent_fields:
  "Sleep (fold (calendarEvent L today source) es b) = Sleep b"
  "Vitals (fold (calendarEvent L today source) es b) = Vitals b"
  "Meds (fold (calendarEvent L today source) es b) = Meds b"
  "Training (fold (calendarEvent L today source) es b) = Training b"
  "Errors (fold (calendarEvent L today source) es b) = Errors b"
  using fold_calendarEvent_keeps [of b L today source es] by (simp_all add: keeps_def)

lemma getCalendarEvents_fields:
  "Sleep (getCalendarEvents L g b today account source) = Sleep b"
  "Vitals (getCalendarEvents L g b today account source) = Vitals b"
  "Meds (getCalendarEvents L g b today account source) = Meds b"
  "Training (getCalendarEvents L g b today account source) = Training b"
  "Errors (getCalendarEvents L g b today account source)
     = Errors b @ calendarWarnings source (g account)"
  by (simp_all add: getCalendarEvents_def calendarWarnings_def addError_fields
        fold_calendarEvent_fields split: fetched.splits)

lemma getCalendarEvents_local:
  assumes "Calendar b = Calendar b'"
  shows "Calendar (getCalendarEvents L g b today account source)
     = Calendar (getCalendarEvents L g b' today account source)"
proof (cases "g account")
  case (Decoded resp)
  with fold_calendarEvent_local [OF assms, of L today source "Events resp"] show ?thesis
    by (simp add: getCalendarEvents_def)
qed (simp_all add: getCalendarEvents_def addError_fields assms)

lemma getCalendarData_keeps:
  "keeps (\<lambda>b. (Sleep b, Vitals b, Meds b, Training b)) b (getCalendarData L g b today)"
  unfolding getCalendarData_def
  by (intro keeps_intros) (simp_all add: keeps_def getCalendarEvents_fields)

lemma getCalendarData_fields:
  "Sleep (getCalendarData L g b today) = Sleep b"
  "Vitals (getCalendarData L g b today) = Vitals b"
  "Meds (getCalendarData L g b today) = Meds b"
  "Training (getCalendarData L g b today) = Training b"
  using getCalendarData_keeps [of b L g today] by (simp_all add: keeps_def)

lemma getCalendarData_Errors:
  "Errors (getCalendarData L g b today)
     = Errors b @ calendarWarnings ''personal'' (g ''jai@govindani.com'')
         @ calendarWarnings ''work'' (g ''jai.g@ewa-services.com'')"
  by (simp add: getCalendarData_def Let_def getCalendarEvents_fields split: list.splits)

lemma getCalendarData_local:
  assumes "Calendar b = Calendar b'"
  shows "Calendar (getCalendarData L g b today) = Calendar (getCalendarData L g b' today)"
proof -
  have "Calendar (getCalendarEvents L g
                    (getCalendarEvents L g b today ''jai@govindani.com'' ''personal'')
                    today ''jai.g@ewa-services.com'' ''work'')
      = Calendar (getCalendarEvents L g
                    (getCalendarEvents L g b' today ''jai@govindani.com'' ''personal'')
                    today ''jai.g@ewa-services.com'' ''work'')"
    by (intro getCalendarEvents_local assms)
  then show ?thesis
    by (simp add: getCalendarData_def Let_def split: list.splits)
qed

subsection \<open>Medication tasks and training\<close>

lemma getMedsData_fields:
  "Sleep (getMedsData L a b today) = Sleep b"
  "Vitals (getMedsData L a b today) = Vitals b"
  "Calendar (getMedsData L a b today) = Calendar b"
  "Training (getMedsData L a b today) = Training b"
  "Errors (getMedsData L a b today) = Errors b @ medsWarnings a"
  by (simp_all add: getMedsData_def medsWarnings_def addError_fields fold_medTask
        split: fetched.splits)

lemma getMedsData_local:
  "Meds b = Meds b' \<Longrightarrow> Meds (getMedsData L a b today) = Meds (getMedsData L a b' today)"
  by (cases a) (simp_all add: getMedsData_def addError_fields fold_medTask)

lemma workout_keeps:
  "keeps (\<lambda>b. (Sleep b, Vitals b, Calendar b, Meds b, Errors b)) b
     (fst (workout L now weekAgo iw (b, n)))"
  by (cases iw) (simp add: workout_def keeps_def Let_def split: option.splits)

lemma fold_workout_keeps:
  "keeps (\<lambda>b. (Sleep b, Vitals b, Calendar b, Meds b, Errors b)) b
     (fst (fold (workout L now weekAgo) ws (b, n)))"
proof (induction ws arbitrary: b n)
  case Nil
  show ?case by (simp add: keeps_def)
next
  case (Cons w ws)
  obtain b1 n1 where st: "workout L now weekAgo w (b, n) = (b1, n1)"
    by (cases "workout L now weekAgo w (b, n)")
  have "keeps (\<lambda>b. (Sleep b, Vitals b, Calendar b, Meds b, Errors b)) b b1"
    using workout_keeps [of b L now weekAgo w n] by (simp add: st)
  moreover have "keeps (\<lambda>b. (Sleep b, Vitals b, Calendar b, Meds b, Errors b)) b1
       (fst (fold (workout L now weekAgo) ws (b1, n1)))"
    by (rule Cons.IH)
  ultimately show ?case
    by (simp add: st keeps_def)
qed

lemma workout_local:
  "Training b = Training b' \<Longrightarrow>
   Training (fst (workout L now weekAgo iw (b, n)))
     = Training (fst (workout L now weekAgo iw (b', n)))
   \<and> snd (workout L now weekAgo iw (b, n)) = snd (workout L now weekAgo iw (b', n))"
  by (cases iw) (simp add: workout_def Let_def split: option.splits)

lemma fold_workout_local:
  "Training b = Training b' \<Longrightarrow>
   Training (fst (fold (workout L now weekAgo) ws (b, n)))
     = Training (fst (fold (workout L now weekAgo) ws (b', n)))
   \<and> snd (fold (workout L now weekAgo) ws (b, n))
     = snd (fold (workout L now weekAgo) ws (b', n))"
proof (induction ws arbitrary: b b' n)
  case Nil
  then show ?case by simp
next
  case (Cons w ws)
  obtain b1 n1 where st: "workout L now weekAgo w (b, n) = (b1, n1)"
    by (cases "workout L now weekAgo w (b, n)")
  obtain b1' n1' where st': "workout L now weekAgo w (b', n) = (b1', n1')"
    by (cases "workout L now weekAgo w (b', n)")
  from workout_local [OF Cons.prems, of L now weekAgo w n]
  have eq: "Training b1 = Training b1'" and "n1 = n1'"
    by (simp_all add: st st')
  with Cons.IH [OF eq, of n1] show ?case
    by (simp add: st st')
qed

lemma getTrainingData_fields:
  "Sleep (getTrainingData L now a b today) = Sleep b"
  "Vitals (getTrainingData L now a b today) = Vitals b"
  "Calendar (getTrainingData L now a b today) = Calendar b"
  "Meds (getTrainingData L now a b today) = Meds b"
  "Errors (getTrainingData L now a b today) = Errors b @ trainingWarnings a"
proof -
  have "Sleep (getTrainingData L now a b today) = Sleep b
      \<and> Vitals (getTrainingData L now a b today) = Vitals b
      \<and> Calendar (getTrainingData L now a b today) = Calendar b
      \<and> Meds (getTrainingData L now a b today) = Meds b
      \<and> Errors (getTrainingData L now a b today) = Errors b @ trainingWarnings a"
  proof (cases a)
    case (Decoded ws)
    obtain b1 n1 where f:
      "fold (workout L now (Time_AddDate L now 0 0 (-7))) (enumerate 0 ws) (b, 0) = (b1, n1)"
      by (cases "fold (workout L now (Time_AddDate L now 0 0 (-7))) (enumerate 0 ws) (b, 0)")
    from fold_workout_keeps [of b L now "Time_AddDate L now 0 0 (-7)" "enumerate 0 ws" 0]
    show ?thesis
      by (simp add: Decoded getTrainingData_def Let_def f keeps_def trainingWarnings_def)
  qed (simp_all add: getTrainingData_def trainingWarnings_def addError_fields)
  then show
    "Sleep (getTrainingData L now a b today) = Sleep b"
    "Vitals (getTrainingData L now a b today) = Vitals b"
    "Calendar (getTrainingData L now a b today) = Calendar b"
    "Meds (getTrainingData L now a b today) = Meds b"
    "Errors (getTrainingData L now a b today) = Errors b @ trainingWarnings a"
    by simp_all
qed

lemma getTrainingData_local:
  assumes "Training b = Training b'"
  shows "Training (getTrainingData L now a b today) = Training (getTrainingData L now a b' today)"
proof (cases a)
  case (Decoded ws)
  obtain b1 n1 where f:
    "fold (workout L now (Time_AddDate L now 0 0 (-7))) (enumerate 0 ws) (b, 0) = (b1, n1)"
    by (cases "fold (workout L now (Time_AddDate L now 0 0 (-7))) (enumerate 0 ws) (b, 0)")
  obtain b1' n1' where f':
    "fold (workout L now (Time_AddDate L now 0 0 (-7))) (enumerate 0 ws) (b', 0) = (b1', n1')"
    by (cases "fold (workout L now (Time_AddDate L now 0 0 (-7))) (enumerate 0 ws) (b', 0)")
  from fold_workout_local [OF assms, of L now "Time_AddDate L now 0 0 (-7)" "enumerate 0 ws" 0]
  have "Training b1 = Training b1'" and "n1 = n1'"
    by (simp_all add: f f')
  then show ?thesis
    using assms by (simp add: Decoded getTrainingData_def Let_def f f')
qed (simp_all add: getTrainingData_def addError_fields assms)

section \<open>Properties of the morning run\<close>

lemma main_unfold:
  "main L W =
     classify L
       (getTrainingData L (now_training W) (hevy W)
          (getMedsData L (td_today W)
             (getCalendarData L (gog W)
                (getHealthDataFromSQLite (health_db W)
                   (getHealthData L (health_ingest W) (fresh L W) (today_of L W))
                   (today_of L W))
                (today_of L W))
             (today_of L W))
          (today_of L W))"
  by (simp add: main_def Let_def fresh_def today_of_def)

lemma fresh_fields:
  "Errors (fresh L W) = []"
  "HRV (Vitals (fresh L W)) = None"
  "RespiratoryRate (Vitals (fresh L W)) = None"
  "DeepHours (Sleep (fresh L W)) = None"
  "REMHours (Sleep (fresh L W)) = None"
  "CoreHours (Sleep (fresh L W)) = None"
  by (simp_all add: fresh_def newBriefing_def)

lemma main_Sleep:
  "Sleep (main L W)
     = Sleep (getHealthDataFromSQLite (health_db W)
                (getHealthData L (health_ingest W) (fresh L W) (today_of L W)) (today_of L W))"
  by (simp add: main_unfold classify_fields getTrainingData_fields getMedsData_fields
        getCalendarData_fields)

lemma main_Vitals:
  "Vitals (main L W)
     = Vitals (getHealthDataFromSQLite (health_db W)
                 (getHealthData L (health_ingest W) (fresh L W) (today_of L W)) (today_of L W))"
  by (simp add: main_unfold classify_fields getTrainingData_fields getMedsData_fields
        getCalendarData_fields)

lemma main_Calendar:
  "Calendar (main L W) = Calendar (getCalendarData L (gog W) (fresh L W) (today_of L W))"
proof -
  have "Calendar (getHealthDataFromSQLite (health_db W)
                    (getHealthData L (health_ingest W) (fresh L W) (today_of L W)) (today_of L W))
          = Calendar (fresh L W)"
    by (simp add: getHealthDataFromSQLite_fields getHealthData_fields)
  from getCalendarData_local [OF this, of L "gog W" "today_of L W"] show ?thesis
    by (simp add: main_unfold classify_fields getTrainingData_fields getMedsData_fields)
qed

lemma main_Meds:
  "Meds (main L W) = Meds (getMedsData L (td_today W) (fresh L W) (today_of L W))"
proof -
  have "Meds (getCalendarData L (gog W)
                (getHealthDataFromSQLite (health_db W)
                   (getHealthData L (health_ingest W) (fresh L W) (today_of L W)) (today_of L W))
                (today_of L W))
          = Meds (fresh L W)"
    by (simp add: getCalendarData_fields getHealthDataFromSQLite_fields getHealthData_fields)
  from getMedsData_local [OF this, of L "td_today W" "today_of L W"] show ?thesis
    by (simp add: main_unfold classify_fields getTrainingData_fields)
qed

lemma main_Training:
  "Training (main L W)
     = Training (getTrainingData L (now_training W) (hevy W) (fresh L W) (today_of L W))"
proof -
  have "Training (getMedsData L (td_today W)
                   (getCalendarData L (gog W)
                      (getHealthDataFromSQLite (health_db W)
                         (getHealthData L (health_ingest W) (fresh L W) (today_of L W))
                         (today_of L W))
                      (today_of L W))
                   (today_of L W))
          = Training (fresh L W)"
    by (simp add: getMedsData_fields getCalendarData_fields getHealthDataFromSQLite_fields
          getHealthData_fields)
  from getTrainingData_local [OF this, of L "now_training W" "hevy W" "today_of L W"]
  show ?thesis
    by (simp add: main_unfold classify_fields)
qed

lemma main_Errors:
  "Errors (main L W)
     = healthWarnings (health_ingest W) @ dbWarnings (health_db W)
         @ calendarWarnings ''personal'' (gog W ''jai@govindani.com'')
         @ calendarWarnings ''work'' (gog W ''jai.g@ewa-services.com'')
         @ medsWarnings (td_today W) @ trainingWarnings (hevy W)"
  by (simp add: main_unfold classify_fields getTrainingData_fields getMedsData_fields
        getCalendarData_Errors getHealthDataFromSQLite_values getHealthData_fields fresh_fields)

lemma warnings_count:
  "length (healthWarnings a) = (if failed a then 1 else 0)"
  "length (calendarWarnings source c) = (if failed c then 1 else 0)"
  "length (medsWarnings m) = (if failed m then 1 else 0)"
  "length (trainingWarnings t) = (if failed t then 1 else 0)"
  "length (dbWarnings opened)
     = (case opened of OpenError _ \<Rightarrow> 1 | Opened (StatementsFail _) \<Rightarrow> 3 | Opened (Table _) \<Rightarrow> 0)"
  by (simp_all add: healthWarnings_def calendarWarnings_def medsWarnings_def
        trainingWarnings_def dbWarnings_def failed_def
        split: fetched.splits sqlopen.splits sqldb.splits)

lemma calendarWarnings_prefix:
  "w \<in> set (calendarWarnings source c) \<Longrightarrow> prefix ''calendar'' w"
  by (cases c) (simp_all add: calendarWarnings_def)

text \<open>
  C9, as the code has it. For every combination of outcomes of the sources, the warnings
  of the report are those of the summary provider, the metrics store, the personal
  calendar, the work calendar, the task tracker and the workout log, in this order: one
  for a failed command or a payload that does not decode, none for a source that
  answers, and for the metrics store one for a failed open or three when its statements
  fail. Each section of the report is computed from its own source alone, so a failure
  elsewhere leaves it as it would have been; in particular no outcome of the calendar
  changes the sleep, vitals, medication or training sections. When every source but the
  calendar answers, the warnings are those of the calendar alone, one for each calendar
  account whose query failed (two when both fail), each beginning with "calendar".
\<close>

theorem main_fetch_isolation:
  "Errors (main L W)
     = healthWarnings (health_ingest W) @ dbWarnings (health_db W)
         @ calendarWarnings ''personal'' (gog W ''jai@govindani.com'')
         @ calendarWarnings ''work'' (gog W ''jai.g@ewa-services.com'')
         @ medsWarnings (td_today W) @ trainingWarnings (hevy W)
   \<and> length (healthWarnings (health_ingest W)) = (if failed (health_ingest W) then 1 else 0)
   \<and> length (calendarWarnings ''personal'' (gog W ''jai@govindani.com''))
       = (if failed (gog W ''jai@govindani.com'') then 1 else 0)
   \<and> length (calendarWarnings ''work'' (gog W ''jai.g@ewa-services.com''))
       = (if failed (gog W ''jai.g@ewa-services.com'') then 1 else 0)
   \<and> length (medsWarnings (td_today W)) = (if failed (td_today W) then 1 else 0)
   \<and> length (trainingWarnings (hevy W)) = (if failed (hevy W) then 1 else 0)
   \<and> length (dbWarnings (health_db W))
       = (case health_db W of OpenError _ \<Rightarrow> 1 | Opened (StatementsFail _) \<Rightarrow> 3
          | Opened (Table _) \<Rightarrow> 0)
   \<and> Sleep (main L W)
       = Sleep (getHealthDataFromSQLite (health_db W)
                  (getHealthData L (health_ingest W) (fresh L W) (today_of L W)) (today_of L W))
   \<and> Vitals (main L W)
       = Vitals (getHealthDataFromSQLite (health_db W)
                   (getHealthData L (health_ingest W) (fresh L W) (today_of L W)) (today_of L W))
   \<and> Calendar (main L W) = Calendar (getCalendarData L (gog W) (fresh L W) (today_of L W))
   \<and> Meds (main L W) = Meds (getMedsData L (td_today W) (fresh L W) (today_of L W))
   \<and> Training (main L W)
       = Training (getTrainingData L (now_training W) (hevy W) (fresh L W) (today_of L W))
   \<and> Sleep (main L (W\<lparr>gog := g\<rparr>)) = Sleep (main L W)
   \<and> Vitals (main L (W\<lparr>gog := g\<rparr>)) = Vitals (main L W)
   \<and> Meds (main L (W\<lparr>gog := g\<rparr>)) = Meds (main L W)
   \<and> Training (main L (W\<lparr>gog := g\<rparr>)) = Training (main L W)
   \<and> (\<not> failed (health_ingest W) \<and> (\<exists>rows. health_db W = Opened (Table rows))
        \<and> \<not> failed (td_today W) \<and> \<not> failed (hevy W)
      \<longrightarrow> Errors (main L W)
            = calendarWarnings ''personal'' (gog W ''jai@govindani.com'')
                @ calendarWarnings ''work'' (gog W ''jai.g@ewa-services.com'')
        \<and> length (Errors (main L W))
            = length (filter failed [gog W ''jai@govindani.com'', gog W ''jai.g@ewa-services.com''])
        \<and> (\<forall>w \<in> set (Errors (main L W)). prefix ''calendar'' w))"
proof -
  have iso:
    "Sleep (main L (W\<lparr>gog := g\<rparr>)) = Sleep (main L W)"
    "Vitals (main L (W\<lparr>gog := g\<rparr>)) = Vitals (main L W)"
    "Meds (main L (W\<lparr>gog := g\<rparr>)) = Meds (main L W)"
    "Training (main L (W\<lparr>gog := g\<rparr>)) = Training (main L W)"
    by (simp_all add: main_Sleep main_Vitals main_Meds main_Training fresh_def today_of_def)
  have cal: "Errors (main L W)
            = calendarWarnings ''personal'' (gog W ''jai@govindani.com'')
                @ calendarWarnings ''work'' (gog W ''jai.g@ewa-services.com'')
        \<and> length (Errors (main L W))
            = length (filter failed [gog W ''jai@govindani.com'', gog W ''jai.g@ewa-services.com''])
        \<and> (\<forall>w \<in> set (Errors (main L W)). prefix ''calendar'' w)"
    if ok: "\<not> failed (health_ingest W)" "\<exists>rows. health_db W = Opened (Table rows)"
      "\<not> failed (td_today W)" "\<not> failed (hevy W)"
  proof -
    from ok have none: "healthWarnings (health_ingest W) = []" "dbWarnings (health_db W) = []"
      "medsWarnings (td_today W) = []" "trainingWarnings (hevy W) = []"
      by (auto simp: healthWarnings_def dbWarnings_def medsWarnings_def trainingWarnings_def
            failed_def split: fetched.splits)
    have e: "Errors (main L W)
            = calendarWarnings ''personal'' (gog W ''jai@govindani.com'')
                @ calendarWarnings ''work'' (gog W ''jai.g@ewa-services.com'')"
      by (simp add: main_Errors none)
    show ?thesis
      unfolding e using calendarWarnings_prefix
      by (auto simp: warnings_count)
  qed
  then have imp:
    "\<not> failed (health_ingest W) \<and> (\<exists>rows. health_db W = Opened (Table rows))
        \<and> \<not> failed (td_today W) \<and> \<not> failed (hevy W)
      \<longrightarrow> Errors (main L W)
            = calendarWarnings ''personal'' (gog W ''jai@govindani.com'')
                @ calendarWarnings ''work'' (gog W ''jai.g@ewa-services.com'')
        \<and> length (Errors (main L W))
            = length (filter failed [gog W ''jai@govindani.com'', gog W ''jai.g@ewa-services.com''])
        \<and> (\<forall>w \<in> set (Errors (main L W)). prefix ''calendar'' w)"
    by blast
  show ?thesis
    by (intro conjI;
        fact main_Errors warnings_count main_Sleep main_Vitals main_Calendar main_Meds
          main_Training iso imp)
qed

theorem main_fetch_isolation_witness:
  "\<not> failed (health_ingest (exWorld exGogWorkDown))
   \<and> (\<exists>rows. health_db (exWorld exGogWorkDown) = Opened (Table rows))
   \<and> \<not> failed (td_today (exWorld exGogWorkDown))
   \<and> \<not> failed (hevy (exWorld exGogWorkDown))
   \<and> Errors (main exLib (exWorld exGogWorkDown)) = [''calendar error (work): exit status 1'']
   \<and> Sleep (main exLib (exWorld exGogWorkDown)) = Sleep (main exLib (exWorld exGog))
   \<and> Vitals (main exLib (exWorld exGogWorkDown)) = Vitals (main exLib (exWorld exGog))
   \<and> Meds (main exLib (exWorld exGogWorkDown)) = Meds (main exLib (exWorld exGog))
   \<and> Training (main exLib (exWorld exGogWorkDown)) = Training (main exLib (exWorld exGog))"
proof -
  have w: "(exWorld exGog)\<lparr>gog := exGogWorkDown\<rparr> = exWorld exGogWorkDown"
    by (simp add: exWorld_def)
  have ok: "\<not> failed (health_ingest (exWorld exGogWorkDown))"
    "\<exists>rows. health_db (exWorld exGogWorkDown) = Opened (Table rows)"
    "\<not> failed (td_today (exWorld exGogWorkDown))"
    "\<not> failed (hevy (exWorld exGogWorkDown))"
    by (simp_all add: exWorld_def failed_def)
  have "Errors (main exLib (exWorld exGogWorkDown))
          = calendarWarnings ''personal'' (gog (exWorld exGogWorkDown) ''jai@govindani.com'')
              @ calendarWarnings ''work'' (gog (exWorld exGogWorkDown) ''jai.g@ewa-services.com'')"
    using main_fetch_isolation [where L = exLib and W = "exWorld exGogWorkDown" and g = exGog] ok
    by blast
  then have e: "Errors (main exLib (exWorld exGogWorkDown))
          = [''calendar error (work): exit status 1'']"
    by (simp add: exWorld_def exGogWorkDown_def exGog_def calendarWarnings_def)
  have "Sleep (main exLib ((exWorld exGog)\<lparr>gog := exGogWorkDown\<rparr>))
          = Sleep (main exLib (exWorld exGog))
      \<and> Vitals (main exLib ((exWorld exGog)\<lparr>gog := exGogWorkDown\<rparr>))
          = Vitals (main exLib (exWorld exGog))
      \<and> Meds (main exLib ((exWorld exGog)\<lparr>gog := exGogWorkDown\<rparr>))
          = Meds (main exLib (exWorld exGog))
      \<and> Training (main exLib ((exWorld exGog)\<lparr>gog := exGogWorkDown\<rparr>))
          = Training (main exLib (exWorld exGog))"
    using main_fetch_isolation [where L = exLib and W = "exWorld exGog" and g = exGogWorkDown]
    by blast
  with ok e show ?thesis
    unfolding w by blast
qed

text \<open>
  When the calendar command fails for both accounts and every other source answers, two
  warnings mention the calendar, one for each account.
\<close>

theorem main_calendar_down_counterexample:
  "\<not> failed (health_ingest (exWorld exGogDown))
   \<and> health_db (exWorld exGogDown) = Opened (Table exRows)
   \<and> \<not> failed (td_today (exWorld exGogDown))
   \<and> \<not> failed (hevy (exWorld exGogDown))
   \<and> failed (gog (exWorld exGogDown) ''jai@govindani.com'')
   \<and> failed (gog (exWorld exGogDown) ''jai.g@ewa-services.com'')
   \<and> Errors (main exLib (exWorld exGogDown))
       = [''calendar error (personal): exit status 1'', ''calendar error (work): exit status 1'']
   \<and> length (filter (\<lambda>w. Contains w ''calendar'') (Errors (main exLib (exWorld exGogDown)))) = 2"
proof -
  have e: "Errors (main exLib (exWorld exGogDown))
       = [''calendar error (personal): exit status 1'', ''calendar error (work): exit status 1'']"
    by (simp add: main_Errors exWorld_def exGogDown_def healthWarnings_def dbWarnings_def
          calendarWarnings_def medsWarnings_def trainingWarnings_def)
  show ?thesis
    unfolding e
    by (simp add: exWorld_def exGogDown_def failed_def Contains_def)
qed

section \<open>Precedence of the metrics store\<close>

lemma main_health_values:
  "HRV (Vitals (main L W))
     = spec_override (store_HRV (health_db W) (today_of L W))
         (summary_value (health_ingest W) ''heart_rate_variability'')"
  "DeepHours (Sleep (main L W))
     = spec_override (fst (store_stages (health_db W) (today_of L W)))
         (summary_value (health_ingest W) ''sleep_deep'')"
  "REMHours (Sleep (main L W))
     = spec_override (fst (snd (store_stages (health_db W) (today_of L W))))
         (summary_value (health_ingest W) ''sleep_rem'')"
  "RespiratoryRate (Vitals (main L W)) = store_RR (health_db W) (today_of L W)"
  "CoreHours (Sleep (main L W)) = snd (snd (store_stages (health_db W) (today_of L W)))"
  by (simp_all add: main_Sleep main_Vitals getHealthDataFromSQLite_values getHealthData_values
        getHealthData_fields fresh_fields spec_override_def split: option.splits)

text \<open>
  C4, as the code has it. For HRV and for the deep and REM sleep hours the final report
  holds the value of the metrics store when the store has one, and otherwise (no row, a
  NULL, a failed statement or a failed open) the value the summary provider reported, if
  any. The respiratory rate and the core sleep hours are read from the metrics store
  only: the final report holds the store's value or none, whatever the summary provider
  reports under those names.
\<close>

theorem main_store_precedence:
  "HRV (Vitals (main L W))
     = spec_override (store_HRV (health_db W) (today_of L W))
         (summary_value (health_ingest W) ''heart_rate_variability'')
   \<and> DeepHours (Sleep (main L W))
     = spec_override (fst (store_stages (health_db W) (today_of L W)))
         (summary_value (health_ingest W) ''sleep_deep'')
   \<and> REMHours (Sleep (main L W))
     = spec_override (fst (snd (store_stages (health_db W) (today_of L W))))
         (summary_value (health_ingest W) ''sleep_rem'')
   \<and> RespiratoryRate (Vitals (main L W)) = store_RR (health_db W) (today_of L W)
   \<and> CoreHours (Sleep (main L W)) = snd (snd (store_stages (health_db W) (today_of L W)))
   \<and> (store_HRV (health_db W) (today_of L W) = Some v \<longrightarrow> HRV (Vitals (main L W)) = Some v)
   \<and> (store_HRV (health_db W) (today_of L W) = None
        \<longrightarrow> HRV (Vitals (main L W))
            = summary_value (health_ingest W) ''heart_rate_variability'')"
  by (simp add: main_health_values spec_override_def)

theorem main_store_precedence_witness:
  "store_HRV (health_db (exWorld exGog)) (today_of exLib (exWorld exGog)) = Some 35
   \<and> summary_value (health_ingest (exWorld exGog)) ''heart_rate_variability'' = Some 45
   \<and> HRV (Vitals (main exLib (exWorld exGog))) = Some 35
   \<and> summary_value (health_ingest (exWorld exGog)) ''sleep_deep'' = Some 0.5
   \<and> DeepHours (Sleep (main exLib (exWorld exGog))) = Some 1.2
   \<and> store_HRV (OpenError ''unable to open database file'')
        (today_of exLib (exWorld exGog)) = None
   \<and> HRV (Vitals (main exLib ((exWorld exGog)
        \<lparr>health_db := OpenError ''unable to open database file''\<rparr>))) = Some 45"
proof -
  let ?W = "exWorld exGog"
  let ?W' = "(exWorld exGog)\<lparr>health_db := OpenError ''unable to open database file''\<rparr>"
  have t: "today_of exLib ?W = ''2024-01-15''" "today_of exLib ?W' = ''2024-01-15''"
    by (simp_all add: today_of_def exLib_def exWorld_def)
  have db: "health_db ?W = Opened (Table exRows)"
    "health_db ?W' = OpenError ''unable to open database file''"
    by (simp_all add: exWorld_def)
  have s: "store_HRV (Opened (Table exRows)) ''2024-01-15'' = Some 35"
    "store_stages (Opened (Table exRows)) ''2024-01-15'' = (Some 1.2, None, None)"
    "store_HRV (OpenError ''unable to open database file'') ''2024-01-15'' = None"
    by (simp_all add: store_HRV_def store_stages_def queryAverageHRV_def querySleepStages_def
          sleepStageRow_def exRows_def sql_AVG_def non_null_def like_prefix_def)
  have v: "summary_value (health_ingest ?W) ''heart_rate_variability'' = Some 45"
    "summary_value (health_ingest ?W') ''heart_rate_variability'' = Some 45"
    "summary_value (health_ingest ?W) ''sleep_deep'' = Some 0.5"
    by (simp_all add: exWorld_def summary_value_def exSummary_def)
  from main_store_precedence [where L = exLib and W = ?W and v = 35]
  have "HRV (Vitals (main exLib ?W)) = Some 35"
    and "DeepHours (Sleep (main exLib ?W)) = Some 1.2"
    by (simp_all add: t db s v spec_override_def)
  moreover from main_store_precedence [where L = exLib and W = ?W' and v = 0]
  have "HRV (Vitals (main exLib ?W')) = Some 45"
    by (simp add: t db s v spec_override_def)
  ultimately show ?thesis
    by (simp add: t db s v)
qed

text \<open>
  The summary provider reports a respiratory rate of 14 and the metrics store has no
  respiratory-rate row for the day: the final report has no respiratory rate.
\<close>

theorem main_respiratory_rate_counterexample:
  "summary_value (health_ingest (exWorld exGog)) ''respiratory_rate'' = Some 14
   \<and> store_RR (health_db (exWorld exGog)) (today_of exLib (exWorld exGog)) = None
   \<and> RespiratoryRate (Vitals (main exLib (exWorld exGog))) = None"
proof -
  have "store_RR (Opened (Table exRows)) (today_of exLib (exWorld exGog)) = None"
    by (simp add: store_RR_def queryLatestRespiratoryRate_def exRows_def)
  then show ?thesis
    by (simp add: main_health_values exWorld_def summary_value_def exSummary_def)
qed

section \<open>Absent inputs\<close>

lemma queryDayTotal_no_rows:
  "\<not> list_ex (\<lambda>r. metric_name r = m \<and> like_prefix (timestamp r) today) rows \<Longrightarrow>
   queryDayTotal (Table rows) m today = (0, None)"
proof -
  assume "\<not> list_ex (\<lambda>r. metric_name r = m \<and> like_prefix (timestamp r) today) rows"
  then have "filter (\<lambda>r. metric_name r = m \<and> like_prefix (timestamp r) today) rows = []"
    by (simp add: list_ex_iff filter_empty_conv)
  then show ?thesis
    by (simp add: queryDayTotal_def sql_SUM_def non_null_def sql_COALESCE_def)
qed

lemma queryDayTotal_Table: "snd (queryDayTotal (Table rows) m today) = None"
  by (simp add: queryDayTotal_def)

lemma getEveningEnergy_Table:
  "Energy (getEveningEnergy (Opened (Table rows)) e today) =
     (Energy e)\<lparr>ActiveKcal := fst (queryDayTotal (Table rows) ''active_energy'' today),
                ConsumedKcal := fst (queryDayTotal (Table rows) ''dietary_energy'' today),
                TotalBurnedKcal := real_of_int (BMRKcal (Energy e))
                   + fst (queryDayTotal (Table rows) ''active_energy'' today),
                DeficitOrSurplusKcal :=
                   fst (CalculateEnergyBalance (BMRKcal (Energy e))
                          (fst (queryDayTotal (Table rows) ''active_energy'' today))
                          (fst (queryDayTotal (Table rows) ''dietary_energy'' today))),
                Status :=
                   snd (CalculateEnergyBalance (BMRKcal (Energy e))
                          (fst (queryDayTotal (Table rows) ''active_energy'' today))
                          (fst (queryDayTotal (Table rows) ''dietary_energy'' today)))\<rparr>"
proof -
  obtain a where a: "queryDayTotal (Table rows) ''active_energy'' today = (a, None)"
    using queryDayTotal_Table [of rows "''active_energy''" today]
    by (cases "queryDayTotal (Table rows) ''active_energy'' today") simp
  obtain c where c: "queryDayTotal (Table rows) ''dietary_energy'' today = (c, None)"
    using queryDayTotal_Table [of rows "''dietary_energy''" today]
    by (cases "queryDayTotal (Table rows) ''dietary_energy'' today") simp
  show ?thesis
    by (simp add: getEveningEnergy_def a c Let_def split: prod.splits)
qed

text \<open>
  C8, as the code has it. In the morning classification an absent HRV gives the recovery
  status UNKNOWN, sleep data that is unavailable or not of the current day gives the sleep
  quality UNKNOWN, and absent deep-sleep hours are not read as zero: the quality of the
  total hours stands. In the evening report absence is read as zero: when no
  dietary-energy row matches the date, \<^const>\<open>queryDayTotal\<close> returns 0 without an error,
  the consumed energy of the report is 0 kcal, and the balance and status are those of
  \<^const>\<open>CalculateEnergyBalance\<close> for a consumed energy of 0.
\<close>

theorem absent_inputs:
  "(HRV (Vitals b) = None \<longrightarrow> RecoveryStatus (Classification (classify L b)) = ''UNKNOWN'')
   \<and> (\<not> DataAvailable (Sleep b) \<or> \<not> IsCurrentDay (Sleep b)
        \<longrightarrow> SleepQuality (Classification (classify L b)) = ''UNKNOWN'')
   \<and> (DataAvailable (Sleep b) \<and> IsCurrentDay (Sleep b) \<and> TotalHours (Sleep b) = Some h
        \<and> DeepHours (Sleep b) = None
        \<longrightarrow> SleepQuality (Classification (classify L b)) = spec_baseQuality h)
   \<and> (\<not> list_ex (\<lambda>r. metric_name r = ''dietary_energy'' \<and> like_prefix (timestamp r) today) rows
        \<longrightarrow> queryDayTotal (Table rows) ''dietary_energy'' today = (0, None)
          \<and> ConsumedKcal (Energy (getEveningEnergy (Opened (Table rows)) e today)) = 0
          \<and> (DeficitOrSurplusKcal (Energy (getEveningEnergy (Opened (Table rows)) e today)),
              Status (Energy (getEveningEnergy (Opened (Table rows)) e today)))
             = CalculateEnergyBalance (BMRKcal (Energy e))
                 (fst (queryDayTotal (Table rows) ''active_energy'' today)) 0)"
proof -
  have "RecoveryStatus (Classification (classify L b)) = ''UNKNOWN''" if "HRV (Vitals b) = None"
    using that by (simp add: classify_RecoveryStatus classifyRecovery_def classify_stage_fields)
  moreover have "SleepQuality (Classification (classify L b)) = ''UNKNOWN''"
    if "\<not> DataAvailable (Sleep b) \<or> \<not> IsCurrentDay (Sleep b)"
    using that by (auto simp: classify_SleepQuality classifySleep_def)
  moreover have "SleepQuality (Classification (classify L b)) = spec_baseQuality h"
    if "DataAvailable (Sleep b)" "IsCurrentDay (Sleep b)" "TotalHours (Sleep b) = Some h"
      "DeepHours (Sleep b) = None"
    using that by (simp add: classify_SleepQuality classifySleep_def spec_baseQuality_def Let_def)
  moreover have "queryDayTotal (Table rows) ''dietary_energy'' today = (0, None)
          \<and> ConsumedKcal (Energy (getEveningEnergy (Opened (Table rows)) e today)) = 0
          \<and> (DeficitOrSurplusKcal (Energy (getEveningEnergy (Opened (Table rows)) e today)),
              Status (Energy (getEveningEnergy (Opened (Table rows)) e today)))
             = CalculateEnergyBalance (BMRKcal (Energy e))
                 (fst (queryDayTotal (Table rows) ''active_energy'' today)) 0"
    if "\<not> list_ex (\<lambda>r. metric_name r = ''dietary_energy'' \<and> like_prefix (timestamp r) today) rows"
    using queryDayTotal_no_rows [OF that] by (simp add: getEveningEnergy_Table)
  ultimately show ?thesis by blast
qed

theorem absent_inputs_witness:
  "HRV (Vitals (exBriefing (Some 7.5) None True None)) = None
   \<and> RecoveryStatus (Classification (classify exLib (exBriefing (Some 7.5) None True None)))
       = ''UNKNOWN''
   \<and> \<not> IsCurrentDay (Sleep (exBriefing (Some 7.5) None False None))
   \<and> SleepQuality (Classification (classify exLib (exBriefing (Some 7.5) None False None)))
       = ''UNKNOWN''
   \<and> DeepHours (Sleep (exBriefing (Some 7.5) None True None)) = None
   \<and> SleepQuality (Classification (classify exLib (exBriefing (Some 7.5) None True None)))
       = ''GOOD''
   \<and> \<not> list_ex (\<lambda>r. metric_name r = ''dietary_energy''
                       \<and> like_prefix (timestamp r) ''2024-01-15'') exEveningRows
   \<and> ConsumedKcal (Energy (getEveningEnergy (Opened (Table exEveningRows))
        (newEveningBriefing '''' ''2024-01-15'') ''2024-01-15'')) = 0
   \<and> DeficitOrSurplusKcal (Energy (getEveningEnergy (Opened (Table exEveningRows))
        (newEveningBriefing '''' ''2024-01-15'') ''2024-01-15'')) = -2246
   \<and> Status (Energy (getEveningEnergy (Opened (Table exEveningRows))
        (newEveningBriefing '''' ''2024-01-15'') ''2024-01-15'')) = ''deficit''"
proof -
  have no: "\<not> list_ex (\<lambda>r. metric_name r = ''dietary_energy''
                       \<and> like_prefix (timestamp r) ''2024-01-15'') exEveningRows"
    by (simp add: exEveningRows_def like_prefix_def)
  have act: "queryDayTotal (Table exEveningRows) ''active_energy'' ''2024-01-15'' = (611, None)"
    by (simp add: queryDayTotal_def exEveningRows_def like_prefix_def sql_SUM_def non_null_def
          sql_COALESCE_def)
  have bal: "CalculateEnergyBalance 1636 611 0 = (-2246, ''deficit'')"
    by (simp add: CalculateEnergyBalance_def go_int_def)
  from absent_inputs [where L = exLib and b = "exBriefing (Some 7.5) None True None"
      and h = "7.5" and rows = exEveningRows and today = "''2024-01-15''"
      and e = "newEveningBriefing '''' ''2024-01-15''"]
    absent_inputs [where L = exLib and b = "exBriefing (Some 7.5) None False None"
      and h = "7.5" and rows = exEveningRows and today = "''2024-01-15''"
      and e = "newEveningBriefing '''' ''2024-01-15''"]
  show ?thesis
    using no
    by (simp add: exBriefing_def newBriefing_def newEveningBriefing_def UserBMRKcal_def
          spec_baseQuality_def act bal)
qed

text \<open>
  A report whose sleep data is available and of the current day but has no total hours is
  left with the sleep quality it had, the empty string of a new report; and a day without
  dietary-energy rows has a consumed energy of 0 kcal, which enters the balance.
\<close>

theorem absent_inputs_counterexample:
  "DataAvailable (Sleep (exBriefing None None True None))
   \<and> IsCurrentDay (Sleep (exBriefing None None True None))
   \<and> TotalHours (Sleep (exBriefing None None True None)) = None
   \<and> SleepQuality (Classification (classify exLib (exBriefing None None True None))) = ''''
   \<and> SleepQuality (Classification (classify exLib (exBriefing None None True None)))
       \<noteq> ''UNKNOWN''
   \<and> filter (\<lambda>r. metric_name r = ''dietary_energy''
                    \<and> like_prefix (timestamp r) ''2024-01-15'') exEveningRows = []
   \<and> queryDayTotal (Table exEveningRows) ''dietary_energy'' ''2024-01-15'' = (0, None)
   \<and> Energy (getEveningEnergy (Opened (Table exEveningRows))
        (newEveningBriefing '''' ''2024-01-15'') ''2024-01-15'')
       = \<lparr>DeficitOrSurplusKcal = -2246, Status = ''deficit'', BMRKcal = 1636,
          ActiveKcal = 611, TotalBurnedKcal = 2247, ConsumedKcal = 0\<rparr>"
proof -
  have q: "queryDayTotal (Table exEveningRows) ''dietary_energy'' ''2024-01-15'' = (0, None)"
    "queryDayTotal (Table exEveningRows) ''active_energy'' ''2024-01-15'' = (611, None)"
    by (simp_all add: queryDayTotal_def exEveningRows_def like_prefix_def sql_SUM_def
          non_null_def sql_COALESCE_def)
  have bal: "CalculateEnergyBalance 1636 611 0 = (-2246, ''deficit'')"
    by (simp add: CalculateEnergyBalance_def go_int_def)
  have "SleepQuality (Classification (classify exLib (exBriefing None None True None))) = ''''"
    by (simp add: classify_SleepQuality classifySleep_def exBriefing_def newBriefing_def)
  moreover have "filter (\<lambda>r. metric_name r = ''dietary_energy''
                    \<and> like_prefix (timestamp r) ''2024-01-15'') exEveningRows = []"
    by (simp add: exEveningRows_def like_prefix_def)
  moreover have "Energy (getEveningEnergy (Opened (Table exEveningRows))
        (newEveningBriefing '''' ''2024-01-15'') ''2024-01-15'')
       = \<lparr>DeficitOrSurplusKcal = -2246, Status = ''deficit'', BMRKcal = 1636,
          ActiveKcal = 611, TotalBurnedKcal = 2247, ConsumedKcal = 0\<rparr>"
    by (simp add: q bal getEveningEnergy_Table newEveningBriefing_def UserBMRKcal_def)
  moreover have "DataAvailable (Sleep (exBriefing None None True None))
   \<and> IsCurrentDay (Sleep (exBriefing None None True None))
   \<and> TotalHours (Sleep (exBriefing None None True None)) = None"
    by (simp add: exBriefing_def)
  ultimately show ?thesis
    using q(1) by simp
qed

end
